theory Spec2Isabelle
  imports Main
begin

section \<open>Values, rows and data frames\<close>

text \<open>
  The scripts under \<^verbatim>\<open>Python_Scripts/data-operations\<close> move pandas data frames through
  configured steps. A cell holds a scalar; numbers are modelled as integers (floating
  point is outside the model) and pandas' \<^verbatim>\<open>NaN\<close>/\<^verbatim>\<open>None\<close> is the one value \<open>VNull\<close>.
  A frame keeps its column labels and its rows in order; a row maps column labels to
  cells, and a label a row does not carry reads as null.
\<close>

datatype val = VNull | VBool bool | VNum int | VStr string

type_synonym row = "(string \<times> val) list"

record dataframe =
  columns :: "string list"
  rows :: "row list"

datatype py_error =
    KeyError string
  | ValueError string
  | TypeError string
  | OtherError string

definition quote :: char where
  "quote = CHR 0x27"

text \<open>\<^verbatim>\<open>str(e)\<close>: the message of the exception; a \<^verbatim>\<open>KeyError\<close> prints its key quoted.\<close>

fun str_error :: "py_error \<Rightarrow> string" where
  "str_error (KeyError k) = quote # k @ [quote]"
| "str_error (ValueError m) = m"
| "str_error (TypeError m) = m"
| "str_error (OtherError m) = m"

definition cell :: "row \<Rightarrow> string \<Rightarrow> val" where
  "cell r c = (case map_of r c of None \<Rightarrow> VNull | Some v \<Rightarrow> v)"

text \<open>\<^verbatim>\<open>df[column]\<close> raises \<^verbatim>\<open>KeyError\<close> for a label that is not a column.\<close>

definition getitem :: "dataframe \<Rightarrow> string \<Rightarrow> py_error + val list" where
  "getitem df c =
     (if c \<in> set (columns df) then Inr (map (\<lambda>r. cell r c) (rows df))
      else Inl (KeyError c))"

definition set_cell :: "row \<Rightarrow> string \<Rightarrow> val \<Rightarrow> row" where
  "set_cell r c v =
     (if c \<in> fst ` set r then map (\<lambda>(k, x). if k = c then (k, v) else (k, x)) r
      else r @ [(c, v)])"

text \<open>
  \<^verbatim>\<open>df[column] = values\<close> for an existing column: pandas refuses a value array whose
  length is not the number of rows.
\<close>

definition setitem :: "dataframe \<Rightarrow> string \<Rightarrow> val list \<Rightarrow> py_error + dataframe" where
  "setitem df c vs =
     (if length vs \<noteq> length (rows df)
      then Inl (ValueError ''Length of values does not match length of index'')
      else Inr (df\<lparr>rows := map (\<lambda>(r, v). set_cell r c v) (zip (rows df) vs)\<rparr>))"

text \<open>\<^verbatim>\<open>df.empty\<close>: true when either axis has length zero.\<close>

definition df_empty :: "dataframe \<Rightarrow> bool" where
  "df_empty df = (columns df = [] \<or> rows df = [])"

text \<open>\<^verbatim>\<open>df[mask]\<close> with a boolean mask keeps the rows whose mask entry is true.\<close>

definition select_rows :: "dataframe \<Rightarrow> bool list \<Rightarrow> dataframe" where
  "select_rows df keep = df\<lparr>rows := map fst (filter snd (zip (rows df) keep))\<rparr>"

section \<open>Logging and outward effects\<close>

text \<open>
  Every function that logs or sends returns the list of events it produced, in order.
  Messages built with an f-string keep their fixed text and their string arguments;
  durations are left out.
\<close>

datatype level = INFO | WARNING | ERROR

datatype event =
    Log level string
  | Post string "row list"

fun str_nat :: "nat \<Rightarrow> string" where
  "str_nat n =
     (if n < 10 then [char_of (48 + n)]
      else str_nat (n div 10) @ [char_of (48 + n mod 10)])"

declare str_nat.simps [simp del]

section \<open>Transformation steps\<close>

text \<open>
  A step descriptor is a dictionary. Each key a step reads with \<^verbatim>\<open>config['key']\<close> is an
  optional field, so that a missing key is the \<^verbatim>\<open>KeyError\<close> of the source; the values
  have the types the code expects. The keys read only by the steps that are not
  modelled in detail are kept in \<open>t_other\<close>.
\<close>

datatype operand = Scalar val | Values "val list"

record condition =
  c_column :: "string option"
  c_operator :: "string option"
  c_value :: "operand option"

record transform_step =
  t_type :: "string option"
  t_columns :: "string list option"
  t_mapping :: "(string \<times> string) list option"
  t_conditions :: "condition list option"
  t_other :: "(string \<times> val) list"

subsection \<open>drop-columns\<close>

text \<open>
  \<^verbatim>\<open>df.drop(columns=labels, errors='ignore')\<close>: the labels that are columns of the frame
  are deleted, the others are ignored.
\<close>

definition pd_drop :: "dataframe \<Rightarrow> string list \<Rightarrow> dataframe" where
  "pd_drop df labels =
     (let present = filter (\<lambda>c. c \<in> set (columns df)) labels
      in df\<lparr>columns := filter (\<lambda>c. c \<notin> set present) (columns df),
            rows := map (filter (\<lambda>(k, v). k \<notin> set present)) (rows df)\<rparr>)"

definition drop_columns :: "dataframe \<Rightarrow> transform_step \<Rightarrow> py_error + dataframe" where
  "drop_columns df config =
     (case t_columns config of
        None \<Rightarrow> Inl (KeyError ''columns'')
      | Some cs \<Rightarrow> Inr (pd_drop df cs))"

subsection \<open>filter-rows\<close>

text \<open>
  Element-wise comparison as pandas does it on a column of Python objects: a null on
  either side makes \<^verbatim>\<open>==\<close> and the four order comparisons false (and \<^verbatim>\<open>!=\<close> true);
  booleans compare as the integers 0 and 1; strings are ordered by code point; an order
  comparison between a number and a string raises \<^verbatim>\<open>TypeError\<close>, while \<^verbatim>\<open>==\<close> between
  them is false.
\<close>

fun num_of :: "val \<Rightarrow> int option" where
  "num_of (VNum n) = Some n"
| "num_of (VBool b) = Some (if b then 1 else 0)"
| "num_of _ = None"

fun str_lt :: "string \<Rightarrow> string \<Rightarrow> bool" where
  "str_lt [] [] = False"
| "str_lt [] (y # ys) = True"
| "str_lt (x # xs) [] = False"
| "str_lt (x # xs) (y # ys) =
     ((of_char x :: nat) < of_char y \<or> (x = y \<and> str_lt xs ys))"

definition py_eq :: "val \<Rightarrow> val \<Rightarrow> bool" where
  "py_eq a b =
     (if a = VNull \<or> b = VNull then False
      else (case (num_of a, num_of b) of
              (Some x, Some y) \<Rightarrow> x = y
            | (None, None) \<Rightarrow> a = b
            | _ \<Rightarrow> False))"

definition py_order ::
  "(int \<Rightarrow> int \<Rightarrow> bool) \<Rightarrow> (string \<Rightarrow> string \<Rightarrow> bool) \<Rightarrow> val \<Rightarrow> val \<Rightarrow> py_error + bool" where
  "py_order ri rs a b =
     (if a = VNull \<or> b = VNull then Inr False
      else (case (a, b) of
              (VStr s, VStr t) \<Rightarrow> Inr (rs s t)
            | _ \<Rightarrow> (case (num_of a, num_of b) of
                      (Some x, Some y) \<Rightarrow> Inr (ri x y)
                    | _ \<Rightarrow> Inl (TypeError ''comparison not supported between these types''))))"

text \<open>The six comparison operators of \<^verbatim>\<open>_filter_rows\<close>, applied to one cell.\<close>

definition compare :: "string \<Rightarrow> val \<Rightarrow> val \<Rightarrow> py_error + bool" where
  "compare op a b =
     (if op = ''=='' then Inr (py_eq a b)
      else if op = ''!='' then Inr (\<not> py_eq a b)
      else if op = ''>'' then py_order (\<lambda>x y. y < x) (\<lambda>s t. str_lt t s) a b
      else if op = ''<'' then py_order (\<lambda>x y. x < y) str_lt a b
      else if op = ''>='' then py_order (\<lambda>x y. y \<le> x) (\<lambda>s t. \<not> str_lt s t) a b
      else py_order (\<lambda>x y. x \<le> y) (\<lambda>s t. \<not> str_lt t s) a b)"

text \<open>\<^verbatim>\<open>Series.isin(values)\<close> on one cell: a null cell is found by a null in the list.\<close>

definition py_isin :: "val \<Rightarrow> val list \<Rightarrow> bool" where
  "py_isin a vs = list_ex (\<lambda>b. a = b \<or> py_eq a b) vs"

text \<open>Run a fallible function over a list; the first error, in order, is the result.\<close>

fun map_err :: "('a \<Rightarrow> py_error + 'b) \<Rightarrow> 'a list \<Rightarrow> py_error + 'b list" where
  "map_err f [] = Inr []"
| "map_err f (x # xs) =
     (case f x of
        Inl e \<Rightarrow> Inl e
      | Inr y \<Rightarrow> (case map_err f xs of Inl e \<Rightarrow> Inl e | Inr ys \<Rightarrow> Inr (y # ys)))"

text \<open>
  \<^verbatim>\<open>df[column] <op> value\<close>: against a scalar the comparison is cell by cell; against a
  list pandas compares position by position and refuses a list of another length.
\<close>

fun compare_column :: "string \<Rightarrow> val list \<Rightarrow> operand \<Rightarrow> py_error + bool list" where
  "compare_column op cells (Scalar v) = map_err (\<lambda>a. compare op a v) cells"
| "compare_column op cells (Values vs) =
     (if length vs \<noteq> length cells then Inl (ValueError ''Lengths must match to compare'')
      else map_err (\<lambda>(a, v). compare op a v) (zip cells vs))"

fun isin_column :: "val list \<Rightarrow> operand \<Rightarrow> py_error + bool list" where
  "isin_column cells (Values vs) = Inr (map (\<lambda>a. py_isin a vs) cells)"
| "isin_column cells (Scalar v) =
     Inl (TypeError ''only list-like objects are allowed to be passed to isin()'')"

text \<open>The mask of one condition: \<^verbatim>\<open>df[column]\<close> first, then the comparison.\<close>

definition condition_mask ::
  "dataframe \<Rightarrow> string \<Rightarrow> string \<Rightarrow> operand \<Rightarrow> py_error + bool list" where
  "condition_mask df column op v =
     (case getitem df column of
        Inl e \<Rightarrow> Inl e
      | Inr cells \<Rightarrow>
          if op = ''in'' then isin_column cells v
          else if op = ''not_in'' then
            (case isin_column cells v of Inl e \<Rightarrow> Inl e | Inr m \<Rightarrow> Inr (map Not m))
          else compare_column op cells v)"

definition known_operator :: "string \<Rightarrow> bool" where
  "known_operator op =
     (op = ''=='' \<or> op = ''!='' \<or> op = ''>'' \<or> op = ''<'' \<or> op = ''>='' \<or> op = ''<=''
      \<or> op = ''in'' \<or> op = ''not_in'')"

text \<open>
  One pass of the loop body of \<^verbatim>\<open>_filter_rows\<close>. The three keys are read in the order
  of the source; an operator outside the \<^verbatim>\<open>if\<close>/\<^verbatim>\<open>elif\<close> chain leaves the frame as it is
  (the chain has no \<^verbatim>\<open>else\<close>), without reading the column.
\<close>

definition apply_condition :: "dataframe \<Rightarrow> condition \<Rightarrow> py_error + dataframe" where
  "apply_condition df c =
     (case c_column c of
        None \<Rightarrow> Inl (KeyError ''column'')
      | Some column \<Rightarrow>
     (case c_operator c of
        None \<Rightarrow> Inl (KeyError ''operator'')
      | Some op \<Rightarrow>
     (case c_value c of
        None \<Rightarrow> Inl (KeyError ''value'')
      | Some v \<Rightarrow>
          if known_operator op then
            (case condition_mask df column op v of
               Inl e \<Rightarrow> Inl e
             | Inr m \<Rightarrow> Inr (select_rows df m))
          else Inr df)))"

fun filter_loop :: "dataframe \<Rightarrow> condition list \<Rightarrow> py_error + dataframe" where
  "filter_loop df [] = Inr df"
| "filter_loop df (c # cs) =
     (case apply_condition df c of
        Inl e \<Rightarrow> Inl e
      | Inr df' \<Rightarrow> filter_loop df' cs)"

definition filter_rows :: "dataframe \<Rightarrow> transform_step \<Rightarrow> py_error + dataframe" where
  "filter_rows df config =
     (case t_conditions config of
        None \<Rightarrow> Inl (KeyError ''conditions'')
      | Some conditions \<Rightarrow> filter_loop df conditions)"






section \<open>External collaborators\<close>

text \<open>
  The pandas routines and the I/O that the scripts only call are parameters of the
  model: each field gives the outcome of one call, a result or the exception raised.
  \<^item> \<open>w_step kind df step\<close>: the bodies of \<^verbatim>\<open>_rename_columns\<close>, \<^verbatim>\<open>_clean_data\<close>,
    \<^verbatim>\<open>_aggregate_data\<close>, \<^verbatim>\<open>_pivot_data\<close> and \<^verbatim>\<open>_apply_custom_function\<close>;
  \<^item> \<open>w_to_datetime\<close>, \<open>w_astype\<close>: \<^verbatim>\<open>pd.to_datetime\<close> and \<^verbatim>\<open>Series.astype\<close> on a column;
  \<^item> \<open>w_str_match pattern cells\<close>: \<^verbatim>\<open>astype(str).str.match(pattern)\<close> on a column;
  \<^item> \<open>w_exec_check\<close>: the body of \<^verbatim>\<open>_check_custom\<close>, with a boolean \<^verbatim>\<open>result\<close>;
  \<^item> \<open>w_extract kind config\<close>: the \<^verbatim>\<open>_extract_*\<close> readers;
  \<^item> \<open>w_load kind df config\<close>: the bodies of \<^verbatim>\<open>_load_csv\<close>, \<^verbatim>\<open>_load_json\<close>,
    \<^verbatim>\<open>_load_database\<close> and \<^verbatim>\<open>_load_s3\<close>;
  \<^item> \<open>w_post url i batch\<close>: the status of the POST of the batch that starts at record
    \<open>i\<close>, or the exception of the HTTP client.
  The messages that these bodies log themselves are not among the events.
\<close>

record check =
  k_type :: "string option"
  k_columns :: "string list option"
  k_column :: "string option"
  k_min :: "val option"
  k_max :: "val option"
  k_pattern :: "string option"
  k_other :: "(string \<times> val) list"

record destination =
  d_url :: "string option"
  d_method :: "string option"
  d_batch_size :: "int option"
  d_other :: "(string \<times> val) list"

record world =
  w_step :: "string \<Rightarrow> dataframe \<Rightarrow> transform_step \<Rightarrow> py_error + dataframe"
  w_to_datetime :: "val list \<Rightarrow> py_error + val list"
  w_astype :: "string \<Rightarrow> val list \<Rightarrow> py_error + val list"
  w_str_match :: "string \<Rightarrow> val list \<Rightarrow> py_error + bool list"
  w_exec_check :: "dataframe \<Rightarrow> check \<Rightarrow> py_error + bool"
  w_extract :: "string \<Rightarrow> (string \<times> val) list \<Rightarrow> py_error + dataframe"
  w_load :: "string \<Rightarrow> dataframe \<Rightarrow> destination \<Rightarrow> py_error + bool"
  w_post :: "string \<Rightarrow> nat \<Rightarrow> row list \<Rightarrow> py_error + int"

subsection \<open>convert-types\<close>

text \<open>
  \<^verbatim>\<open>pd.to_numeric(column, errors='coerce')\<close> on one cell. A string is read as a decimal
  integer with an optional sign; what does not parse becomes null.
\<close>

definition digit_of :: "char \<Rightarrow> nat option" where
  "digit_of c =
     (let n = (of_char c :: nat) in if 48 \<le> n \<and> n \<le> 57 then Some (n - 48) else None)"

fun parse_digits :: "nat \<Rightarrow> string \<Rightarrow> nat option" where
  "parse_digits acc [] = Some acc"
| "parse_digits acc (c # cs) =
     (case digit_of c of None \<Rightarrow> None | Some d \<Rightarrow> parse_digits (10 * acc + d) cs)"

definition parse_int :: "string \<Rightarrow> int option" where
  "parse_int s =
     (case s of
        [] \<Rightarrow> None
      | c # cs \<Rightarrow>
          if c = CHR ''-'' \<or> c = CHR ''+'' then
            (if cs = [] then None
             else map_option (\<lambda>n. if c = CHR ''-'' then - int n else int n) (parse_digits 0 cs))
          else map_option int (parse_digits 0 s))"

fun to_numeric_cell :: "val \<Rightarrow> val" where
  "to_numeric_cell VNull = VNull"
| "to_numeric_cell (VNum n) = VNum n"
| "to_numeric_cell (VBool b) = VNum (if b then 1 else 0)"
| "to_numeric_cell (VStr s) = (case parse_int s of None \<Rightarrow> VNull | Some n \<Rightarrow> VNum n)"

text \<open>The body of the \<^verbatim>\<open>try\<close> in \<^verbatim>\<open>_convert_types\<close>, for one column.\<close>

definition convert_attempt ::
  "world \<Rightarrow> dataframe \<Rightarrow> string \<Rightarrow> string \<Rightarrow> py_error + dataframe" where
  "convert_attempt w df column dtype =
     (case getitem df column of
        Inl e \<Rightarrow> Inl e
      | Inr cells \<Rightarrow>
          if dtype = ''datetime'' then
            (case w_to_datetime w cells of
               Inl e \<Rightarrow> Inl e
             | Inr cells' \<Rightarrow> setitem df column cells')
          else if dtype = ''numeric'' then
            setitem df column (map to_numeric_cell cells)
          else
            (case w_astype w dtype cells of
               Inl e \<Rightarrow> Inl e
             | Inr cells' \<Rightarrow> setitem df column cells'))"

text \<open>
  One pass of the loop of \<^verbatim>\<open>_convert_types\<close>: a column that is not in the frame is
  passed over; an exception of the attempt is caught, logged as a warning, and the
  frame stays as it was.
\<close>

definition convert_column ::
  "world \<Rightarrow> dataframe \<Rightarrow> string \<times> string \<Rightarrow> dataframe \<times> event list" where
  "convert_column w df entry =
     (let column = fst entry; dtype = snd entry in
      if column \<in> set (columns df) then
        (case convert_attempt w df column dtype of
           Inl e \<Rightarrow>
             (df, [Log WARNING (''Could not convert '' @ column @ '' to '' @ dtype @ '': ''
                                 @ str_error e)])
         | Inr df' \<Rightarrow> (df', []))
      else (df, []))"

fun convert_loop ::
  "world \<Rightarrow> dataframe \<Rightarrow> (string \<times> string) list \<Rightarrow> dataframe \<times> event list" where
  "convert_loop w df [] = (df, [])"
| "convert_loop w df (entry # entries) =
     (case convert_column w df entry of
        (df', ev) \<Rightarrow> (case convert_loop w df' entries of (df'', ev') \<Rightarrow> (df'', ev @ ev')))"

definition convert_types ::
  "world \<Rightarrow> dataframe \<Rightarrow> transform_step \<Rightarrow> (py_error + dataframe) \<times> event list" where
  "convert_types w df config =
     (case t_mapping config of
        None \<Rightarrow> (Inl (KeyError ''mapping''), [])
      | Some type_mapping \<Rightarrow>
          (case convert_loop w df type_mapping of (df', ev) \<Rightarrow> (Inr df', ev)))"

subsection \<open>The transformer\<close>

definition known_transform :: "string \<Rightarrow> bool" where
  "known_transform t =
     (t \<in> set [''drop_columns'', ''rename_columns'', ''filter_rows'', ''convert_types'',
               ''clean_data'', ''aggregate'', ''join'', ''pivot'', ''custom''])"

text \<open>The \<^verbatim>\<open>if\<close>/\<^verbatim>\<open>elif\<close> chain of \<^verbatim>\<open>DataTransformer.transform\<close>, for one step.\<close>

definition apply_transform ::
  "world \<Rightarrow> dataframe \<Rightarrow> transform_step \<Rightarrow> (py_error + dataframe) \<times> event list" where
  "apply_transform w df transform =
     (case t_type transform of
        None \<Rightarrow> (Inl (KeyError ''type''), [])
      | Some transform_type \<Rightarrow>
          if transform_type = ''drop_columns'' then (drop_columns df transform, [])
          else if transform_type = ''rename_columns'' then
            (w_step w ''rename_columns'' df transform, [])
          else if transform_type = ''filter_rows'' then (filter_rows df transform, [])
          else if transform_type = ''convert_types'' then convert_types w df transform
          else if transform_type = ''clean_data'' then
            (w_step w ''clean_data'' df transform, [])
          else if transform_type = ''aggregate'' then
            (w_step w ''aggregate'' df transform, [])
          else if transform_type = ''join'' then
            (Inr df, [Log INFO ''Join transformation not implemented in this example''])
          else if transform_type = ''pivot'' then (w_step w ''pivot'' df transform, [])
          else if transform_type = ''custom'' then (w_step w ''custom'' df transform, [])
          else (Inr df, [Log WARNING (''Unknown transformation type: '' @ transform_type)]))"

fun transform_loop ::
  "world \<Rightarrow> dataframe \<Rightarrow> transform_step list \<Rightarrow> (py_error + dataframe) \<times> event list" where
  "transform_loop w df [] = (Inr df, [])"
| "transform_loop w df (t # ts) =
     (case apply_transform w df t of
        (Inl e, ev) \<Rightarrow> (Inl e, ev)
      | (Inr df', ev) \<Rightarrow> (case transform_loop w df' ts of (r, ev') \<Rightarrow> (r, ev @ ev')))"

record transformation_config =
  transformations :: "transform_step list option"

text \<open>
  \<^verbatim>\<open>DataTransformer.transform\<close>: the steps in order; an exception of a step is logged
  and raised again.
\<close>

definition transform ::
  "world \<Rightarrow> dataframe \<Rightarrow> transformation_config \<Rightarrow> (py_error + dataframe) \<times> event list" where
  "transform w df tc =
     (case transform_loop w df (case transformations tc of None \<Rightarrow> [] | Some ts \<Rightarrow> ts) of
        (Inl e, ev) \<Rightarrow>
          (Inl e, Log INFO ''Starting data transformation'' # ev
                  @ [Log ERROR (''Transformation error: '' @ str_error e)])
      | (Inr df', ev) \<Rightarrow>
          (Inr df', Log INFO ''Starting data transformation'' # ev
                    @ [Log INFO (''Transformation completed: '' @ str_nat (length (rows df'))
                                 @ '' rows'')]))"

section \<open>The validator\<close>

text \<open>\<^verbatim>\<open>_check_not_null\<close>: the first column with a null decides; later ones are not read.\<close>

fun not_null_loop :: "dataframe \<Rightarrow> string list \<Rightarrow> (py_error + bool) \<times> event list" where
  "not_null_loop df [] = (Inr True, [])"
| "not_null_loop df (column # cs) =
     (case getitem df column of
        Inl e \<Rightarrow> (Inl e, [])
      | Inr cells \<Rightarrow>
          if list_ex (\<lambda>v. v = VNull) cells
          then (Inr False, [Log ERROR (''Null values found in column: '' @ column)])
          else not_null_loop df cs)"

definition check_not_null :: "dataframe \<Rightarrow> check \<Rightarrow> (py_error + bool) \<times> event list" where
  "check_not_null df config =
     (case k_columns config of
        None \<Rightarrow> (Inl (KeyError ''columns''), [])
      | Some cs \<Rightarrow> not_null_loop df cs)"

text \<open>
  \<^verbatim>\<open>_check_unique\<close>: \<^verbatim>\<open>df[columns]\<close> raises for a label that is not a column; a
  selection without columns has no duplicates.
\<close>

definition check_unique :: "dataframe \<Rightarrow> check \<Rightarrow> (py_error + bool) \<times> event list" where
  "check_unique df config =
     (case k_columns config of
        None \<Rightarrow> (Inl (KeyError ''columns''), [])
      | Some cs \<Rightarrow>
          (case filter (\<lambda>c. c \<notin> set (columns df)) cs of
             missing # _ \<Rightarrow> (Inl (KeyError missing), [])
           | [] \<Rightarrow>
               if cs \<noteq> [] \<and> \<not> distinct (map (\<lambda>r. map (cell r) cs) (rows df))
               then (Inr False, [Log ERROR ''Duplicate values found in columns''])
               else (Inr True, [])))"

text \<open>
  One bound of \<^verbatim>\<open>_check_range\<close>: \<^verbatim>\<open>bound is not None and (df[column] <op> bound).any()\<close>.
  The column is read only when the bound is given.
\<close>

definition beyond_bound ::
  "dataframe \<Rightarrow> string \<Rightarrow> string \<Rightarrow> val option \<Rightarrow> py_error + bool" where
  "beyond_bound df column op bound =
     (case bound of
        None \<Rightarrow> Inr False
      | Some VNull \<Rightarrow> Inr False
      | Some b \<Rightarrow>
          (case getitem df column of
             Inl e \<Rightarrow> Inl e
           | Inr cells \<Rightarrow>
               (case compare_column op cells (Scalar b) of
                  Inl e \<Rightarrow> Inl e
                | Inr m \<Rightarrow> Inr (list_ex (\<lambda>x. x) m))))"

definition check_range :: "dataframe \<Rightarrow> check \<Rightarrow> (py_error + bool) \<times> event list" where
  "check_range df config =
     (case k_column config of
        None \<Rightarrow> (Inl (KeyError ''column''), [])
      | Some column \<Rightarrow>
          (case beyond_bound df column ''<'' (k_min config) of
             Inl e \<Rightarrow> (Inl e, [])
           | Inr True \<Rightarrow> (Inr False, [Log ERROR (''Values below minimum in column: '' @ column)])
           | Inr False \<Rightarrow>
               (case beyond_bound df column ''>'' (k_max config) of
                  Inl e \<Rightarrow> (Inl e, [])
                | Inr True \<Rightarrow>
                    (Inr False, [Log ERROR (''Values above maximum in column: '' @ column)])
                | Inr False \<Rightarrow> (Inr True, []))))"

definition check_format ::
  "world \<Rightarrow> dataframe \<Rightarrow> check \<Rightarrow> (py_error + bool) \<times> event list" where
  "check_format w df config =
     (case k_column config of
        None \<Rightarrow> (Inl (KeyError ''column''), [])
      | Some column \<Rightarrow>
     (case k_pattern config of
        None \<Rightarrow> (Inl (KeyError ''pattern''), [])
      | Some pattern \<Rightarrow>
     (case getitem df column of
        Inl e \<Rightarrow> (Inl e, [])
      | Inr cells \<Rightarrow>
     (case w_str_match w pattern cells of
        Inl e \<Rightarrow> (Inl e, [])
      | Inr m \<Rightarrow>
          if \<not> list_all (\<lambda>x. x) m
          then (Inr False, [Log ERROR (''Format validation failed for column: '' @ column)])
          else (Inr True, [])))))"

definition known_check :: "string \<Rightarrow> bool" where
  "known_check t = (t \<in> set [''not_null'', ''unique'', ''range'', ''format'', ''custom''])"

text \<open>
  The \<^verbatim>\<open>if\<close>/\<^verbatim>\<open>elif\<close> chain of \<^verbatim>\<open>DataValidator.validate\<close> for one check:
  \<^verbatim>\<open>check_result\<close> starts as \<^verbatim>\<open>True\<close> and the chain has no \<^verbatim>\<open>else\<close>.
\<close>

definition check_outcome ::
  "world \<Rightarrow> dataframe \<Rightarrow> string \<Rightarrow> check \<Rightarrow> (py_error + bool) \<times> event list" where
  "check_outcome w df check_type check =
     (if check_type = ''not_null'' then check_not_null df check
      else if check_type = ''unique'' then check_unique df check
      else if check_type = ''range'' then check_range df check
      else if check_type = ''format'' then check_format w df check
      else if check_type = ''custom'' then (w_exec_check w df check, [])
      else (Inr True, []))"

record check_result =
  r_type :: string
  r_passed :: bool
  r_config :: check

text \<open>
  The entries of \<^verbatim>\<open>results['errors']\<close> are strings in the source: the text of a failed
  check's descriptor, or the message of the exception. They are kept structured here.
\<close>

datatype report_error = ValidationFailed check | Raised py_error

record report =
  passed :: bool
  checks :: "check_result list"
  errors :: "report_error list"

text \<open>
  The loop of \<^verbatim>\<open>validate\<close>. \<^verbatim>\<open>results\<close> is updated in place, so when a check raises the
  handler sees the entries appended so far: the loop returns the exception, if any,
  with the report as it then stands.
\<close>

fun validate_loop ::
  "world \<Rightarrow> dataframe \<Rightarrow> check list \<Rightarrow> report \<Rightarrow> (py_error option \<times> report) \<times> event list" where
  "validate_loop w df [] results = ((None, results), [])"
| "validate_loop w df (check # cs) results =
     (case k_type check of
        None \<Rightarrow> ((Some (KeyError ''type''), results), [])
      | Some check_type \<Rightarrow>
          (case check_outcome w df check_type check of
             (Inl e, ev) \<Rightarrow> ((Some e, results), ev)
           | (Inr check_result, ev) \<Rightarrow>
               (let results1 = results\<lparr>checks := checks results
                       @ [\<lparr>r_type = check_type, r_passed = check_result, r_config = check\<rparr>]\<rparr>;
                    results2 = (if \<not> check_result
                                then results1\<lparr>passed := False,
                                       errors := errors results1 @ [ValidationFailed check]\<rparr>
                                else results1)
                in (case validate_loop w df cs results2 of (r, ev') \<Rightarrow> (r, ev @ ev')))))"

record validation_config =
  v_checks :: "check list option"

definition validate ::
  "world \<Rightarrow> dataframe \<Rightarrow> validation_config \<Rightarrow> report \<times> event list" where
  "validate w df vc =
     (case validate_loop w df (case v_checks vc of None \<Rightarrow> [] | Some cs \<Rightarrow> cs)
             \<lparr>passed = True, checks = [], errors = []\<rparr> of
        ((None, results), ev) \<Rightarrow>
          (results, ev @ [Log INFO (''Data validation completed: ''
                                    @ str_nat (length (checks results)) @ '' checks'')])
      | ((Some e, results), ev) \<Rightarrow>
          (results\<lparr>passed := False, errors := errors results @ [Raised e]\<rparr>,
           ev @ [Log ERROR (''Validation error: '' @ str_error e)]))"

text \<open>
  For the statements about the report: the outcome of one check as the loop sees it
  (its result or the exception it raises), the entry the loop appends for a check that
  returned, and the checks the loop gets through, which are those before the first one
  that raises.
\<close>

definition outcome_of :: "world \<Rightarrow> dataframe \<Rightarrow> check \<Rightarrow> py_error + bool" where
  "outcome_of w df c =
     (case k_type c of
        None \<Rightarrow> Inl (KeyError ''type'')
      | Some t \<Rightarrow> fst (check_outcome w df t c))"

definition entry_of :: "world \<Rightarrow> dataframe \<Rightarrow> check \<Rightarrow> check_result" where
  "entry_of w df c =
     \<lparr>r_type = (case k_type c of None \<Rightarrow> [] | Some t \<Rightarrow> t),
      r_passed = (outcome_of w df c = Inr True),
      r_config = c\<rparr>"

definition evaluated :: "world \<Rightarrow> dataframe \<Rightarrow> check list \<Rightarrow> check list" where
  "evaluated w df cs = takeWhile (\<lambda>c. \<not> isl (outcome_of w df c)) cs"

section \<open>The loader\<close>

definition str_int :: "int \<Rightarrow> string" where
  "str_int i = (if i < 0 then CHR ''-'' # str_nat (nat (- i)) else str_nat (nat i))"

text \<open>\<^verbatim>\<open>str.upper()\<close>, on ASCII letters.\<close>

definition upper :: "string \<Rightarrow> string" where
  "upper s =
     map (\<lambda>c. let n = (of_char c :: nat) in if 97 \<le> n \<and> n \<le> 122 then char_of (n - 32) else c) s"

text \<open>\<^verbatim>\<open>range(0, n, step)\<close>: a zero step raises, a negative one gives no index.\<close>

definition py_range :: "nat \<Rightarrow> int \<Rightarrow> py_error + nat list" where
  "py_range n step =
     (if step = 0 then Inl (ValueError ''range() arg 3 must not be zero'')
      else if step < 0 then Inr []
      else Inr (map (\<lambda>k. k * nat step) [0 ..< (n + nat step - 1) div nat step]))"

text \<open>\<^verbatim>\<open>df.to_dict('records')\<close>: one record per row, with every column of the frame.\<close>

definition to_records :: "dataframe \<Rightarrow> row list" where
  "to_records df = map (\<lambda>r. map (\<lambda>c. (c, cell r c)) (columns df)) (rows df)"

text \<open>
  The batch loop of \<^verbatim>\<open>_load_api\<close> over the indices of \<^verbatim>\<open>range\<close>, with a positive batch
  size \<open>bs\<close>. \<open>Post url batch\<close> records that the request was issued. Only the method
  \<^verbatim>\<open>POST\<close> sends; the first status other than 200 returns \<^verbatim>\<open>False\<close> at once.
\<close>

fun post_loop ::
  "world \<Rightarrow> string \<Rightarrow> string \<Rightarrow> nat \<Rightarrow> row list \<Rightarrow> nat list \<Rightarrow> (py_error + bool) \<times> event list" where
  "post_loop w url method bs records [] = (Inr True, [])"
| "post_loop w url method bs records (i # is) =
     (let batch = take bs (drop i records) in
      if upper method = ''POST'' then
        (case w_post w url i batch of
           Inl e \<Rightarrow> (Inl e, [Post url batch])
         | Inr status \<Rightarrow>
             if status \<noteq> 200
             then (Inr False, [Post url batch,
                               Log ERROR (''API loading failed: '' @ str_int status)])
             else (case post_loop w url method bs records is of
                     (r, ev) \<Rightarrow> (r, Post url batch # ev)))
      else post_loop w url method bs records is)"

definition load_api ::
  "world \<Rightarrow> dataframe \<Rightarrow> destination \<Rightarrow> (py_error + bool) \<times> event list" where
  "load_api w df config =
     (case d_url config of
        None \<Rightarrow> (Inl (KeyError ''url''), [])
      | Some url \<Rightarrow>
          (let method = (case d_method config of None \<Rightarrow> ''POST'' | Some m \<Rightarrow> m);
               batch_size = (case d_batch_size config of None \<Rightarrow> 100 | Some b \<Rightarrow> b);
               ev0 = [Log INFO (''Loading '' @ str_nat (length (rows df))
                                @ '' rows to API: '' @ url)];
               records = to_records df
           in (case py_range (length records) batch_size of
                 Inl e \<Rightarrow> (Inl e, ev0)
               | Inr offsets \<Rightarrow>
                   (case post_loop w url method (nat batch_size) records offsets of
                      (Inr True, ev) \<Rightarrow>
                        (Inr True, ev0 @ ev @ [Log INFO ''API loading completed''])
                    | (r, ev) \<Rightarrow> (r, ev0 @ ev)))))"

text \<open>
  For the statements about the batches: the start indices of the batches of size \<open>bs\<close>
  over \<open>n\<close> records, the batch that starts at an index, whether the endpoint answers
  the batch at an index with 200, and the requests among the events.
\<close>

definition api_offsets :: "nat \<Rightarrow> nat \<Rightarrow> nat list" where
  "api_offsets n bs = map (\<lambda>k. k * bs) [0 ..< (n + bs - 1) div bs]"

definition api_batch :: "nat \<Rightarrow> row list \<Rightarrow> nat \<Rightarrow> row list" where
  "api_batch bs records i = take bs (drop i records)"

definition answered :: "world \<Rightarrow> string \<Rightarrow> nat \<Rightarrow> row list \<Rightarrow> nat \<Rightarrow> bool" where
  "answered w url bs records i = (w_post w url i (api_batch bs records i) = Inr 200)"

fun is_post :: "event \<Rightarrow> bool" where
  "is_post (Post url batch) = True"
| "is_post (Log l m) = False"

text \<open>The dispatch of \<^verbatim>\<open>DataLoader.load\<close>, inside its \<^verbatim>\<open>try\<close>.\<close>

definition load_body ::
  "world \<Rightarrow> dataframe \<Rightarrow> string \<Rightarrow> destination \<Rightarrow> (py_error + bool) \<times> event list" where
  "load_body w df destination_type destination_config =
     (if destination_type = ''csv'' then (w_load w ''csv'' df destination_config, [])
      else if destination_type = ''json'' then (w_load w ''json'' df destination_config, [])
      else if destination_type = ''database'' then
        (w_load w ''database'' df destination_config, [])
      else if destination_type = ''s3'' then (w_load w ''s3'' df destination_config, [])
      else if destination_type = ''api'' then load_api w df destination_config
      else (Inl (ValueError (''Unsupported destination type: '' @ destination_type)), []))"

text \<open>\<^verbatim>\<open>DataLoader.load\<close>: \<^verbatim>\<open>except Exception\<close> logs the error and returns \<^verbatim>\<open>False\<close>.\<close>

definition load :: "world \<Rightarrow> dataframe \<Rightarrow> string \<Rightarrow> destination \<Rightarrow> bool \<times> event list" where
  "load w df destination_type destination_config =
     (case load_body w df destination_type destination_config of
        (Inl e, ev) \<Rightarrow> (False, ev @ [Log ERROR (''Loading error: '' @ str_error e)])
      | (Inr ok, ev) \<Rightarrow> (ok, ev))"

section \<open>The pipeline orchestrator\<close>

definition known_source :: "string \<Rightarrow> bool" where
  "known_source t =
     (t \<in> set [''csv'', ''json'', ''xml'', ''database'', ''api'', ''s3'', ''ftp''])"

text \<open>\<^verbatim>\<open>DataExtractor.extract\<close>: an exception is logged and raised again.\<close>

definition extractor_extract ::
  "world \<Rightarrow> string \<Rightarrow> (string \<times> val) list \<Rightarrow> (py_error + dataframe) \<times> event list" where
  "extractor_extract w source_type source_config =
     (case (if known_source source_type then w_extract w source_type source_config
            else Inl (ValueError (''Unsupported source type: '' @ source_type))) of
        Inl e \<Rightarrow> (Inl e, [Log ERROR (''Extraction error: '' @ str_error e)])
      | Inr df \<Rightarrow> (Inr df, []))"

record pipeline_config =
  stop_on_validation_error :: "bool option"

record etl_config =
  source_type :: string
  source_config :: "(string \<times> val) list"
  destination_type :: string
  destination_config :: destination
  transformation_config :: transformation_config
  pipeline_config :: pipeline_config
  validation_config :: validation_config

text \<open>
  The body of the \<^verbatim>\<open>try\<close> of \<^verbatim>\<open>ETLPipeline.run\<close>: \<open>Inr b\<close> is \<^verbatim>\<open>return b\<close>, \<open>Inl e\<close> is
  an exception that leaves the body.
\<close>

definition run_body :: "world \<Rightarrow> etl_config \<Rightarrow> (py_error + bool) \<times> event list" where
  "run_body w config =
     (let ev0 = [Log INFO ''Starting ETL pipeline'', Log INFO ''Step 1: Data Extraction''] in
      case extractor_extract w (source_type config) (source_config config) of
        (Inl e, ev1) \<Rightarrow> (Inl e, ev0 @ ev1)
      | (Inr df, ev1) \<Rightarrow>
          if df_empty df
          then (Inr False, ev0 @ ev1 @ [Log WARNING ''No data extracted, pipeline stopping''])
          else
            (let ev2 = ev0 @ ev1 @ [Log INFO ''Step 2: Data Transformation''] in
             case transform w df (transformation_config config) of
               (Inl e, evt) \<Rightarrow> (Inl e, ev2 @ evt)
             | (Inr df', evt) \<Rightarrow>
                 (let ev3 = ev2 @ evt @ [Log INFO ''Step 3: Data Validation''] in
                  case validate w df' (validation_config config) of
                    (validation_results, evv) \<Rightarrow>
                      (let failed = \<not> passed validation_results;
                           ev4 = ev3 @ evv
                                 @ (if failed then [Log ERROR ''Data validation failed''] else [])
                       in
                       if failed \<and> (case stop_on_validation_error (pipeline_config config) of
                                       None \<Rightarrow> True | Some b \<Rightarrow> b)
                       then (Inr False, ev4)
                       else
                         (let ev5 = ev4 @ [Log INFO ''Step 4: Data Loading''] in
                          case load w df' (destination_type config)
                                 (destination_config config) of
                            (success, evl) \<Rightarrow>
                              if \<not> success
                              then (Inr False, ev5 @ evl @ [Log ERROR ''Data loading failed''])
                              else (Inr True, ev5 @ evl
                                     @ [Log INFO ''ETL pipeline completed successfully'',
                                        Log INFO (''Processed '' @ str_nat (length (rows df'))
                                                  @ '' records'')]))))))"

text \<open>\<^verbatim>\<open>ETLPipeline.run\<close>: \<^verbatim>\<open>except Exception\<close> logs the error and returns \<^verbatim>\<open>False\<close>.\<close>

definition run :: "world \<Rightarrow> etl_config \<Rightarrow> bool \<times> event list" where
  "run w config =
     (case run_body w config of
        (Inl e, ev) \<Rightarrow> (False, ev @ [Log ERROR (''ETL pipeline failed: '' @ str_error e)])
      | (Inr b, ev) \<Rightarrow> (b, ev))"

section \<open>The chunked table copy of the migration script\<close>

text \<open>
  The database calls of \<^verbatim>\<open>DatabaseMigration._migrate_table\<close> are parameters:
  \<open>m_count\<close> is the \<^verbatim>\<open>SELECT COUNT(*)\<close>, \<open>m_read_sql table limit offset\<close> the page read,
  \<open>m_apply_transformations\<close> the configured column rules, \<open>m_to_sql\<close> the append to the
  target (\<open>Some e\<close> when it raises).
\<close>

datatype mig_event =
    MLog level string
  | ReadSql string int int
  | ToSql string dataframe

record mig_world =
  m_count :: "string \<Rightarrow> py_error + int"
  m_read_sql :: "string \<Rightarrow> int \<Rightarrow> int \<Rightarrow> py_error + dataframe"
  m_apply_transformations :: "string \<Rightarrow> dataframe \<Rightarrow> py_error + dataframe"
  m_to_sql :: "string \<Rightarrow> dataframe \<Rightarrow> py_error option"

text \<open>
  The \<^verbatim>\<open>while offset < total_rows\<close> loop. It is a partial function: \<open>None\<close> is a loop
  that never ends. The result is the exception that left the loop or the number of
  migrated rows, with the events so far; every pass starts with one \<open>ReadSql\<close>.
\<close>

partial_function (option) migrate_loop ::
  "mig_world \<Rightarrow> string \<Rightarrow> int \<Rightarrow> int \<Rightarrow> int \<Rightarrow> nat \<Rightarrow> mig_event list
     \<Rightarrow> ((py_error + nat) \<times> mig_event list) option" where
  "migrate_loop w table_name batch_size total_rows offset migrated_rows ev =
     (if offset < total_rows then
        (let ev1 = ev @ [ReadSql table_name batch_size offset] in
         case m_read_sql w table_name batch_size offset of
           Inl e \<Rightarrow> Some (Inl e, ev1)
         | Inr df \<Rightarrow>
             if df_empty df then Some (Inr migrated_rows, ev1)
             else
               (case m_apply_transformations w table_name df of
                  Inl e \<Rightarrow> Some (Inl e, ev1)
                | Inr df' \<Rightarrow>
                    (case m_to_sql w table_name df' of
                       Some e \<Rightarrow> Some (Inl e, ev1 @ [ToSql table_name df'])
                     | None \<Rightarrow>
                         migrate_loop w table_name batch_size total_rows
                           (offset + batch_size) (migrated_rows + length (rows df'))
                           (ev1 @ [ToSql table_name df',
                                   MLog INFO (''Table '' @ table_name @ '': ''
                                     @ str_nat (migrated_rows + length (rows df')) @ ''/''
                                     @ str_int total_rows @ '' rows'')]))))
      else Some (Inr migrated_rows, ev))"

text \<open>\<^verbatim>\<open>_migrate_table\<close>: an empty table is skipped; any exception gives \<^verbatim>\<open>False\<close>.\<close>

definition migrate_table ::
  "mig_world \<Rightarrow> int \<Rightarrow> string \<Rightarrow> (bool \<times> mig_event list) option" where
  "migrate_table w batch_size table_name =
     (case m_count w table_name of
        Inl e \<Rightarrow>
          Some (False, [MLog ERROR (''Error migrating table '' @ table_name @ '': ''
                                    @ str_error e)])
      | Inr total_rows \<Rightarrow>
          if total_rows = 0
          then Some (True, [MLog INFO (''Table '' @ table_name @ '' is empty, skipping'')])
          else
            (case migrate_loop w table_name batch_size total_rows 0 0 [] of
               None \<Rightarrow> None
             | Some (Inl e, ev) \<Rightarrow>
                 Some (False, ev @ [MLog ERROR (''Error migrating table '' @ table_name @ '': ''
                                               @ str_error e)])
             | Some (Inr migrated_rows, ev) \<Rightarrow>
                 Some (True, ev @ [MLog INFO (''Completed migration of table '' @ table_name
                                             @ '': '' @ str_nat migrated_rows @ '' rows'')])))"

fun is_read :: "mig_event \<Rightarrow> bool" where
  "is_read (ReadSql t l off) = True"
| "is_read _ = False"

fun read_offset :: "mig_event \<Rightarrow> int" where
  "read_offset (ReadSql t l off) = off"
| "read_offset _ = 0"

section \<open>Sample inputs\<close>

text \<open>A source table of five rows, read one row per page, with a target that accepts.\<close>

definition demo_source :: mig_world where
  "demo_source =
     \<lparr>m_count = (\<lambda>t. Inr 5),
      m_read_sql = (\<lambda>t limit offset.
         Inr \<lparr>columns = [''id''],
              rows = (if offset < 5 then [[(''id'', VNum offset)]] else [])\<rparr>),
      m_apply_transformations = (\<lambda>t df. Inr df),
      m_to_sql = (\<lambda>t df. None)\<rparr>"

definition sample_frame :: dataframe where
  "sample_frame =
     \<lparr>columns = [''id'', ''age''],
      rows = [[(''id'', VNum 1), (''age'', VStr ''5'')],
              [(''id'', VNum 2), (''age'', VStr ''x'')],
              [(''id'', VNum 3), (''age'', VStr ''7'')]]\<rparr>"

definition step :: "string \<Rightarrow> transform_step" where
  "step kind =
     \<lparr>t_type = Some kind, t_columns = None, t_mapping = None, t_conditions = None,
      t_other = []\<rparr>"



text \<open>
  A world for the examples: the steps that are not modelled return the frame as it is,
  \<^verbatim>\<open>astype('int')\<close> applies Python's \<^verbatim>\<open>int()\<close> to every cell (and so raises on a string
  that is not an integer literal), no string is a date, every pattern matches, the
  source holds \<open>sample_frame\<close>, every file or table destination accepts, and every POST is
  answered with 200.
\<close>

fun int_cell :: "val \<Rightarrow> py_error + val" where
  "int_cell (VNum n) = Inr (VNum n)"
| "int_cell (VBool b) = Inr (VNum (if b then 1 else 0))"
| "int_cell (VStr s) =
     (case parse_int s of
        None \<Rightarrow> Inl (ValueError (''invalid literal for int() with base 10: '' @ s))
      | Some n \<Rightarrow> Inr (VNum n))"
| "int_cell VNull = Inl (TypeError ''int() argument must be a string or a number'')"

definition sample_world :: world where
  "sample_world =
     \<lparr>w_step = (\<lambda>kind df step. Inr df),
      w_to_datetime = (\<lambda>cells. Inl (ValueError ''Unknown datetime string format'')),
      w_astype = (\<lambda>dtype cells.
         if dtype = ''int'' then map_err int_cell cells
         else Inl (TypeError ''data type not understood'')),
      w_str_match = (\<lambda>pattern cells. Inr (map (\<lambda>c. True) cells)),
      w_exec_check = (\<lambda>df check. Inr True),
      w_extract = (\<lambda>kind config. Inr sample_frame),
      w_load = (\<lambda>kind df config. Inr True),
      w_post = (\<lambda>url i batch. Inr 200)\<rparr>"

definition check_of :: "string \<Rightarrow> check" where
  "check_of kind =
     \<lparr>k_type = Some kind, k_columns = None, k_column = None, k_min = None, k_max = None,
      k_pattern = None, k_other = []\<rparr>"

definition destination_of :: "string \<Rightarrow> destination" where
  "destination_of url =
     \<lparr>d_url = Some url, d_method = None, d_batch_size = None, d_other = []\<rparr>"

text \<open>
  A pipeline from a CSV source to a CSV file, with one check: no null in the column
  \<^verbatim>\<open>age\<close>, or, in the second configuration, in a column \<^verbatim>\<open>ghost\<close> that the data does not
  have.
\<close>

definition sample_config :: etl_config where
  "sample_config =
     \<lparr>source_type = ''csv'', source_config = [], destination_type = ''csv'',
      destination_config = destination_of [],
      transformation_config = \<lparr>transformations = Some []\<rparr>,
      pipeline_config = \<lparr>stop_on_validation_error = None\<rparr>,
      validation_config =
        \<lparr>v_checks = Some [(check_of ''not_null'')\<lparr>k_columns := Some [''age'']\<rparr>]\<rparr>\<rparr>"

definition ghost_check :: check where
  "ghost_check = (check_of ''not_null'')\<lparr>k_columns := Some [''ghost'']\<rparr>"

definition ghost_config :: etl_config where
  "ghost_config = sample_config\<lparr>validation_config := \<lparr>v_checks = Some [ghost_check]\<rparr>\<rparr>"

text \<open>A source without rows, and one whose second row has no age.\<close>

definition empty_source :: world where
  "empty_source =
     sample_world\<lparr>w_extract := (\<lambda>kind config. Inr \<lparr>columns = [''id'', ''age''], rows = []\<rparr>)\<rparr>"

definition gap_frame :: dataframe where
  "gap_frame =
     \<lparr>columns = [''id'', ''age''],
      rows = [[(''id'', VNum 1), (''age'', VNum 30)],
              [(''id'', VNum 2), (''age'', VNull)]]\<rparr>"

definition gap_source :: world where
  "gap_source = sample_world\<lparr>w_extract := (\<lambda>kind config. Inr gap_frame)\<rparr>"

definition lenient :: "etl_config \<Rightarrow> etl_config" where
  "lenient config = config\<lparr>pipeline_config := \<lparr>stop_on_validation_error = Some False\<rparr>\<rparr>"

text \<open>An endpoint that answers the batch starting at record 1 with 500.\<close>

definition failing_api :: world where
  "failing_api = sample_world\<lparr>w_post := (\<lambda>url i batch. Inr (if i = 1 then 500 else 200))\<rparr>"

section \<open>Properties\<close>

subsection \<open>drop-columns\<close>

lemma pd_drop_absent:
  assumes "set labels \<inter> set (columns df) = {}"
  shows "pd_drop df labels = df"
proof -
  have "filter (\<lambda>c. c \<in> set (columns df)) labels = []"
    using assms by (auto simp: filter_empty_conv)
  moreover have "map (filter (\<lambda>p. True)) (rows df) = rows df"
    by (rule map_idI) simp
  ultimately show ?thesis
    by (simp add: pd_drop_def case_prod_unfold)
qed

lemma pd_drop_columns_disjoint:
  "set labels \<inter> set (columns (pd_drop df labels)) = {}"
  by (auto simp: pd_drop_def)

lemma pd_drop_twice: "pd_drop (pd_drop df labels) labels = pd_drop df labels"
  by (rule pd_drop_absent) (rule pd_drop_columns_disjoint)

text \<open>
  C6. drop-columns is idempotent: once the step has returned a frame, applying it again
  with the same column list returns that same frame; the step returns whenever the
  descriptor has its column list; and a column list naming no column of the frame
  returns the frame unchanged, without an error.
\<close>

theorem drop_columns_idempotent:
  "t_columns config = Some cs \<Longrightarrow>
     (\<exists>df'. drop_columns df config = Inr df' \<and> drop_columns df' config = Inr df')
     \<and> (set cs \<inter> set (columns df) = {} \<longrightarrow> drop_columns df config = Inr df)"
  by (simp add: drop_columns_def pd_drop_twice pd_drop_absent)

theorem drop_columns_idempotent_witness:
  "drop_columns sample_frame ((step ''drop_columns'')\<lparr>t_columns := Some [''age'', ''ghost'']\<rparr>)
     = Inr \<lparr>columns = [''id''],
            rows = [[(''id'', VNum 1)], [(''id'', VNum 2)], [(''id'', VNum 3)]]\<rparr>
   \<and> drop_columns \<lparr>columns = [''id''],
            rows = [[(''id'', VNum 1)], [(''id'', VNum 2)], [(''id'', VNum 3)]]\<rparr>
         ((step ''drop_columns'')\<lparr>t_columns := Some [''age'', ''ghost'']\<rparr>)
     = Inr \<lparr>columns = [''id''],
            rows = [[(''id'', VNum 1)], [(''id'', VNum 2)], [(''id'', VNum 3)]]\<rparr>
   \<and> set [''ghost''] \<inter> set (columns sample_frame) = {}
   \<and> drop_columns sample_frame ((step ''drop_columns'')\<lparr>t_columns := Some [''ghost'']\<rparr>)
     = Inr sample_frame"
  using drop_columns_idempotent
          [of "(step ''drop_columns'')\<lparr>t_columns := Some [''age'', ''ghost'']\<rparr>"
              "[''age'', ''ghost'']" sample_frame]
        drop_columns_idempotent
          [of "(step ''drop_columns'')\<lparr>t_columns := Some [''ghost'']\<rparr>" "[''ghost'']"
              sample_frame]
  by (simp add: step_def sample_frame_def drop_columns_def pd_drop_def)

subsection \<open>The chunked table copy\<close>

lemma offsets_step:
  "map (\<lambda>k. (a::int) + int k * b) [0 ..< Suc n] = a # map (\<lambda>k. (a + b) + int k * b) [0 ..< n]"
proof -
  have "[0 ..< Suc n] = 0 # map Suc [0 ..< n]"
    by (simp add: upt_conv_Cons map_Suc_upt del: upt_Suc)
  then show ?thesis
    by (simp add: o_def algebra_simps del: upt_Suc)
qed

lemma ceil_ge_one:
  assumes "0 < (b::int)" "0 < x"
  shows "1 \<le> (x + b - 1) div b"
proof -
  have "b \<le> x + b - 1" using assms by simp
  then have "0 < (x + b - 1) div b"
    using assms by (simp add: pos_imp_zdiv_pos_iff)
  then show ?thesis by simp
qed

lemma ceil_step:
  assumes "0 < (b::int)" "0 < x"
  shows "1 + (if b < x then (x - b + b - 1) div b else 0) \<le> (x + b - 1) div b"
proof (cases "b < x")
  case True
  have "(x + b - 1) div b = (x - 1) div b + 1"
    using assms by (metis add.commute add_diff_eq div_add_self1 less_irrefl)
  then show ?thesis using True by simp
next
  case False
  with ceil_ge_one [OF assms] show ?thesis by simp
qed

lemma migrate_loop_terminates:
  assumes bs: "0 < bs"
  shows "\<exists>r new. migrate_loop w t bs tot offset mig ev = Some (r, ev @ new)
           \<and> int (length (filter is_read new))
               \<le> (if offset < tot then (tot - offset + bs - 1) div bs else 0)
           \<and> map read_offset (filter is_read new)
               = map (\<lambda>k. offset + int k * bs) [0 ..< length (filter is_read new)]"
proof (induction "nat (tot - offset)" arbitrary: offset mig ev rule: less_induct)
  case less
  show ?case
  proof (cases "offset < tot")
    case False
    then show ?thesis
      by (subst migrate_loop.simps) simp
  next
    case True
    let ?ev1 = "ev @ [ReadSql t bs offset]"
    have one: "(1::int) \<le> (tot - offset + bs - 1) div bs"
      using ceil_ge_one [OF bs, of "tot - offset"] True by simp
    show ?thesis
    proof (cases "m_read_sql w t bs offset")
      case (Inl e)
      with True one show ?thesis
        by (subst migrate_loop.simps) (simp add: Let_def)
    next
      case (Inr df)
      show ?thesis
      proof (cases "df_empty df")
        case True
        with Inr \<open>offset < tot\<close> one show ?thesis
          by (subst migrate_loop.simps) (simp add: Let_def)
      next
        case nonempty: False
        show ?thesis
        proof (cases "m_apply_transformations w t df")
          case (Inl e)
          with Inr nonempty \<open>offset < tot\<close> one show ?thesis
            by (subst migrate_loop.simps) (simp add: Let_def)
        next
          case tr: (Inr df')
          show ?thesis
          proof (cases "m_to_sql w t df'")
            case (Some e)
            with Inr nonempty tr \<open>offset < tot\<close> one show ?thesis
              by (subst migrate_loop.simps) (simp add: Let_def)
          next
            case None
            let ?msg = "MLog INFO (''Table '' @ t @ '': ''
                                     @ str_nat (mig + length (rows df')) @ ''/''
                                     @ str_int tot @ '' rows'')"
            let ?ev2 = "?ev1 @ [ToSql t df', ?msg]"
            have "nat (tot - (offset + bs)) < nat (tot - offset)"
              using bs True by simp
            from less [OF this, of "mig + length (rows df')" ?ev2]
            obtain r new where
              run: "migrate_loop w t bs tot (offset + bs) (mig + length (rows df')) ?ev2
                      = Some (r, ?ev2 @ new)"
              and cnt: "int (length (filter is_read new))
                 \<le> (if offset + bs < tot then (tot - (offset + bs) + bs - 1) div bs else 0)"
              and offs: "map read_offset (filter is_read new)
                 = map (\<lambda>k. (offset + bs) + int k * bs) [0 ..< length (filter is_read new)]"
              by blast
            let ?new = "[ReadSql t bs offset, ToSql t df', ?msg] @ new"
            have eq: "migrate_loop w t bs tot offset mig ev = Some (r, ev @ ?new)"
              using Inr nonempty tr None True run
              by (subst migrate_loop.simps) (simp add: Let_def)
            have len: "length (filter is_read ?new) = Suc (length (filter is_read new))"
              by simp
            have "1 + (if bs < tot - offset then (tot - offset - bs + bs - 1) div bs else 0)
                    \<le> (tot - offset + bs - 1) div bs"
              using ceil_step [OF bs, of "tot - offset"] True by simp
            moreover have "(offset + bs < tot) = (bs < tot - offset)" by auto
            moreover have "tot - (offset + bs) = tot - offset - bs" by simp
            ultimately have cnt': "int (length (filter is_read ?new))
                 \<le> (if offset < tot then (tot - offset + bs - 1) div bs else 0)"
              using cnt True unfolding len by (simp split: if_splits)
            have offs': "map read_offset (filter is_read ?new)
                 = map (\<lambda>k. offset + int k * bs) [0 ..< length (filter is_read ?new)]"
              unfolding len offsets_step using offs by simp
            from eq cnt' offs' show ?thesis by blast
          qed
        qed
      qed
    qed
  qed
qed

text \<open>
  C10. With a batch size greater than zero the chunked copy of \<^verbatim>\<open>_migrate_table\<close>
  returns, whatever the database calls answer. When the counted total is not negative,
  the loop makes at most \<open>\<lceil>total_rows / batch_size\<rceil>\<close> passes (each pass issues exactly
  one page read), and the passes read at the offsets 0, batch_size, 2 * batch_size, ...
\<close>

theorem migrate_table_terminates:
  assumes "0 < batch_size"
  shows "\<exists>ok ev. migrate_table w batch_size table_name = Some (ok, ev)
           \<and> (\<forall>total_rows. m_count w table_name = Inr total_rows \<and> 0 \<le> total_rows \<longrightarrow>
                 int (length (filter is_read ev)) \<le> (total_rows + batch_size - 1) div batch_size
                 \<and> map read_offset (filter is_read ev)
                     = map (\<lambda>k. int k * batch_size) [0 ..< length (filter is_read ev)])"
proof (cases "m_count w table_name")
  case (Inl e)
  then show ?thesis
    by (auto simp: migrate_table_def)
next
  case (Inr n)
  show ?thesis
  proof (cases "n = 0")
    case True
    have "0 \<le> (batch_size - 1) div batch_size"
      using assms by (simp add: pos_imp_zdiv_nonneg_iff)
    with Inr True show ?thesis
      by (auto simp: migrate_table_def)
  next
    case False
    from migrate_loop_terminates [OF assms, of w table_name n 0 0 "[]"]
    obtain r new where
      run: "migrate_loop w table_name batch_size n 0 0 [] = Some (r, new)"
      and cnt: "int (length (filter is_read new))
                  \<le> (if 0 < n then (n - 0 + batch_size - 1) div batch_size else 0)"
      and offs: "map read_offset (filter is_read new)
                  = map (\<lambda>k. 0 + int k * batch_size) [0 ..< length (filter is_read new)]"
      by auto
    show ?thesis
    proof (cases r)
      case (Inl e)
      with Inr False run cnt offs show ?thesis
        by (auto simp: migrate_table_def)
    next
      case r: (Inr m)
      with Inr False run cnt offs show ?thesis
        by (auto simp: migrate_table_def)
    qed
  qed
qed

theorem migrate_table_terminates_witness:
  "(0::int) < 2 \<and> m_count demo_source ''users'' = Inr 5 \<and>
   (\<exists>ok ev. migrate_table demo_source 2 ''users'' = Some (ok, ev)
      \<and> int (length (filter is_read ev)) \<le> 3)"
  using migrate_table_terminates [of 2 demo_source "''users''"]
  by (auto simp: demo_source_def)

subsection \<open>filter-rows\<close>



















subsection \<open>The orchestrator\<close>

lemma extract_ok_events:
  "fst (extractor_extract w st sc) = Inr df \<Longrightarrow> extractor_extract w st sc = (Inr df, [])"
  by (auto simp: extractor_extract_def split: sum.splits if_splits)

text \<open>
  C1. When extraction returns a frame without rows, \<^verbatim>\<open>run\<close> returns \<^verbatim>\<open>False\<close> and its
  whole trace is the two start messages and the warning "No data extracted, pipeline
  stopping": a warning, no error entry, none of the messages "Step 2", "Step 3",
  "Step 4" that precede the transform, validate and load calls, and no event of those
  stages; the result does not depend on the transformation, validation, destination
  or pipeline sections.
\<close>

theorem run_empty_batch:
  assumes "fst (extractor_extract w (source_type config) (source_config config)) = Inr df"
    and "rows df = []"
  shows "run w config =
           (False, [Log INFO ''Starting ETL pipeline'', Log INFO ''Step 1: Data Extraction'',
                    Log WARNING ''No data extracted, pipeline stopping''])"
  using extract_ok_events [OF assms(1)] assms(2)
  by (simp add: run_def run_body_def df_empty_def)

theorem run_empty_batch_witness:
  "fst (extractor_extract empty_source (source_type sample_config) (source_config sample_config))
     = Inr \<lparr>columns = [''id'', ''age''], rows = []\<rparr>
   \<and> run empty_source sample_config =
           (False, [Log INFO ''Starting ETL pipeline'', Log INFO ''Step 1: Data Extraction'',
                    Log WARNING ''No data extracted, pipeline stopping''])"
  using run_empty_batch [of empty_source sample_config "\<lparr>columns = [''id'', ''age''], rows = []\<rparr>"]
  by (simp add: extractor_extract_def known_source_def empty_source_def sample_world_def
        sample_config_def)


lemma run_body_validated:
  assumes "fst (extractor_extract w (source_type config) (source_config config)) = Inr df"
    and "\<not> df_empty df"
    and "transform w df (transformation_config config) = (Inr df', evt)"
    and "validate w df' (validation_config config) = (report, evv)"
    and "load w df' (destination_type config) (destination_config config) = (success, evl)"
  shows "run_body w config =
           (let ev4 = [Log INFO ''Starting ETL pipeline'', Log INFO ''Step 1: Data Extraction'',
                       Log INFO ''Step 2: Data Transformation''] @ evt
                      @ [Log INFO ''Step 3: Data Validation''] @ evv
                      @ (if \<not> passed report then [Log ERROR ''Data validation failed''] else [])
            in if \<not> passed report
                  \<and> (case stop_on_validation_error (pipeline_config config) of
                        None \<Rightarrow> True | Some b \<Rightarrow> b)
               then (Inr False, ev4)
               else if \<not> success
               then (Inr False, ev4 @ [Log INFO ''Step 4: Data Loading''] @ evl
                                @ [Log ERROR ''Data loading failed''])
               else (Inr True, ev4 @ [Log INFO ''Step 4: Data Loading''] @ evl
                               @ [Log INFO ''ETL pipeline completed successfully'',
                                  Log INFO (''Processed '' @ str_nat (length (rows df'))
                                            @ '' records'')]))"
  using extract_ok_events [OF assms(1)] assms(2-5)
  by (simp add: run_body_def Let_def)

text \<open>
  C2. After a successful extraction of a non-empty frame and a successful transform,
  with a report whose \<^verbatim>\<open>passed\<close> flag is false: when \<^verbatim>\<open>stop_on_validation_error\<close> is
  false the run logs "Step 4: Data Loading", calls the loader and returns the loader's
  result; when the flag is true or absent (the default) the run returns \<^verbatim>\<open>False\<close>
  right after "Data validation failed", without the loading step.
\<close>

theorem run_validation_gate:
  assumes "fst (extractor_extract w (source_type config) (source_config config)) = Inr df"
    and "\<not> df_empty df"
    and "transform w df (transformation_config config) = (Inr df', evt)"
    and "validate w df' (validation_config config) = (report, evv)"
    and "\<not> passed report"
    and "load w df' (destination_type config) (destination_config config) = (success, evl)"
  shows "(stop_on_validation_error (pipeline_config config) = Some False \<longrightarrow>
            run w config =
              (success,
               [Log INFO ''Starting ETL pipeline'', Log INFO ''Step 1: Data Extraction'',
                Log INFO ''Step 2: Data Transformation''] @ evt
               @ [Log INFO ''Step 3: Data Validation''] @ evv
               @ [Log ERROR ''Data validation failed'', Log INFO ''Step 4: Data Loading'']
               @ evl
               @ (if success
                  then [Log INFO ''ETL pipeline completed successfully'',
                        Log INFO (''Processed '' @ str_nat (length (rows df')) @ '' records'')]
                  else [Log ERROR ''Data loading failed''])))
       \<and> (stop_on_validation_error (pipeline_config config) \<noteq> Some False \<longrightarrow>
            run w config =
              (False,
               [Log INFO ''Starting ETL pipeline'', Log INFO ''Step 1: Data Extraction'',
                Log INFO ''Step 2: Data Transformation''] @ evt
               @ [Log INFO ''Step 3: Data Validation''] @ evv
               @ [Log ERROR ''Data validation failed'']))"
proof (intro conjI impI)
  assume "stop_on_validation_error (pipeline_config config) = Some False"
  with run_body_validated [OF assms(1-4) assms(6)] assms(5)
  show "run w config =
              (success,
               [Log INFO ''Starting ETL pipeline'', Log INFO ''Step 1: Data Extraction'',
                Log INFO ''Step 2: Data Transformation''] @ evt
               @ [Log INFO ''Step 3: Data Validation''] @ evv
               @ [Log ERROR ''Data validation failed'', Log INFO ''Step 4: Data Loading'']
               @ evl
               @ (if success
                  then [Log INFO ''ETL pipeline completed successfully'',
                        Log INFO (''Processed '' @ str_nat (length (rows df')) @ '' records'')]
                  else [Log ERROR ''Data loading failed'']))"
    by (simp add: run_def Let_def)
next
  assume "stop_on_validation_error (pipeline_config config) \<noteq> Some False"
  then have "(case stop_on_validation_error (pipeline_config config) of
                None \<Rightarrow> True | Some b \<Rightarrow> b)"
    by (cases "stop_on_validation_error (pipeline_config config)") auto
  with run_body_validated [OF assms(1-4) assms(6)] assms(5)
  show "run w config =
              (False,
               [Log INFO ''Starting ETL pipeline'', Log INFO ''Step 1: Data Extraction'',
                Log INFO ''Step 2: Data Transformation''] @ evt
               @ [Log INFO ''Step 3: Data Validation''] @ evv
               @ [Log ERROR ''Data validation failed''])"
    by (simp add: run_def Let_def)
qed

lemma str_nat_small:
  "str_nat 0 = ''0''" "str_nat (Suc 0) = ''1''" "str_nat (Suc (Suc 0)) = ''2''"
  "str_nat (Suc (Suc (Suc 0))) = ''3''"
  by code_simp+

lemma gap_extract:
  "fst (extractor_extract gap_source ''csv'' []) = Inr gap_frame"
  by (simp add: extractor_extract_def known_source_def gap_source_def sample_world_def)

lemma gap_transform:
  "transform gap_source gap_frame \<lparr>transformations = Some []\<rparr>
     = (Inr gap_frame, [Log INFO ''Starting data transformation'',
                        Log INFO ''Transformation completed: 2 rows''])"
  by (simp add: transform_def gap_frame_def str_nat_small)

lemma gap_validate:
  "validate gap_source gap_frame
       \<lparr>v_checks = Some [(check_of ''not_null'')\<lparr>k_columns := Some [''age'']\<rparr>]\<rparr>
     = (\<lparr>passed = False,
         checks = [\<lparr>r_type = ''not_null'', r_passed = False,
                    r_config = (check_of ''not_null'')\<lparr>k_columns := Some [''age'']\<rparr>\<rparr>],
         errors = [ValidationFailed ((check_of ''not_null'')\<lparr>k_columns := Some [''age'']\<rparr>)]\<rparr>,
        [Log ERROR ''Null values found in column: age'',
         Log INFO ''Data validation completed: 1 checks''])"
  by (simp add: validate_def check_of_def check_outcome_def check_not_null_def getitem_def
        gap_frame_def cell_def str_nat_small Let_def)

lemma gap_load:
  "load gap_source gap_frame ''csv'' (destination_of []) = (True, [])"
  by (simp add: load_def load_body_def gap_source_def sample_world_def)

theorem run_validation_gate_witness:
  "fst (run gap_source (lenient sample_config)) = True
   \<and> Log INFO ''Step 4: Data Loading'' \<in> set (snd (run gap_source (lenient sample_config)))
   \<and> fst (run gap_source sample_config) = False
   \<and> Log INFO ''Step 4: Data Loading'' \<notin> set (snd (run gap_source sample_config))"
  using run_validation_gate [of gap_source "lenient sample_config" gap_frame gap_frame
          "[Log INFO ''Starting data transformation'',
            Log INFO ''Transformation completed: 2 rows'']"
          "\<lparr>passed = False,
         checks = [\<lparr>r_type = ''not_null'', r_passed = False,
                    r_config = (check_of ''not_null'')\<lparr>k_columns := Some [''age'']\<rparr>\<rparr>],
         errors = [ValidationFailed ((check_of ''not_null'')\<lparr>k_columns := Some [''age'']\<rparr>)]\<rparr>"
          "[Log ERROR ''Null values found in column: age'',
         Log INFO ''Data validation completed: 1 checks'']" True "[]"]
        run_validation_gate [of gap_source sample_config gap_frame gap_frame
          "[Log INFO ''Starting data transformation'',
            Log INFO ''Transformation completed: 2 rows'']"
          "\<lparr>passed = False,
         checks = [\<lparr>r_type = ''not_null'', r_passed = False,
                    r_config = (check_of ''not_null'')\<lparr>k_columns := Some [''age'']\<rparr>\<rparr>],
         errors = [ValidationFailed ((check_of ''not_null'')\<lparr>k_columns := Some [''age'']\<rparr>)]\<rparr>"
          "[Log ERROR ''Null values found in column: age'',
         Log INFO ''Data validation completed: 1 checks'']" True "[]"]
        gap_extract gap_transform gap_validate gap_load
  by (simp add: lenient_def sample_config_def df_empty_def gap_frame_def)

lemma validate_raised:
  assumes "fst (fst (validate_loop w df (case v_checks vc of None \<Rightarrow> [] | Some cs \<Rightarrow> cs)
                       \<lparr>passed = True, checks = [], errors = []\<rparr>)) = Some e"
  shows "\<not> passed (fst (validate w df vc))"
  using assms by (auto simp: validate_def split: prod.splits option.splits)

lemma run_stops_on_failed_report:
  assumes "fst (extractor_extract w (source_type config) (source_config config)) = Inr df"
    and "\<not> df_empty df"
    and "fst (transform w df (transformation_config config)) = Inr df'"
    and "\<not> passed (fst (validate w df' (validation_config config)))"
    and "stop_on_validation_error (pipeline_config config) \<noteq> Some False"
  shows "fst (run w config) = False"
proof -
  obtain evt where tr: "transform w df (transformation_config config) = (Inr df', evt)"
    using assms(3) by (cases "transform w df (transformation_config config)") simp
  obtain report evv where va: "validate w df' (validation_config config) = (report, evv)"
    by (cases "validate w df' (validation_config config)")
  obtain success evl where
    ld: "load w df' (destination_type config) (destination_config config) = (success, evl)"
    by (cases "load w df' (destination_type config) (destination_config config)")
  from assms(4) va have failed: "\<not> passed report" by simp
  from assms(5) have "(case stop_on_validation_error (pipeline_config config) of
                         None \<Rightarrow> True | Some b \<Rightarrow> b)"
    by (cases "stop_on_validation_error (pipeline_config config)") auto
  with run_body_validated [OF assms(1,2) tr va ld] failed
  show ?thesis by (simp add: run_def Let_def)
qed

text \<open>
  C9, as amended. \<^verbatim>\<open>run\<close> returns a boolean on every path. An exception of the
  extraction or of the transformation leaves the \<^verbatim>\<open>try\<close> body and \<^verbatim>\<open>run\<close> returns
  \<^verbatim>\<open>False\<close>; an exception inside \<^verbatim>\<open>load\<close> is turned into \<^verbatim>\<open>False\<close> by \<^verbatim>\<open>load\<close> itself,
  and then \<^verbatim>\<open>run\<close> returns \<^verbatim>\<open>False\<close>; an exception of a validation check is caught by
  \<^verbatim>\<open>validate\<close>, which returns a report that has not passed, and \<^verbatim>\<open>run\<close> returns
  \<^verbatim>\<open>False\<close> for it when \<^verbatim>\<open>stop_on_validation_error\<close> is true or absent.
\<close>

theorem run_catches_exceptions:
  "(fst (extractor_extract w (source_type config) (source_config config)) = Inl e
      \<longrightarrow> fst (run w config) = False)
   \<and> (fst (extractor_extract w (source_type config) (source_config config)) = Inr df
      \<and> \<not> df_empty df \<and> fst (transform w df (transformation_config config)) = Inl e
      \<longrightarrow> fst (run w config) = False)
   \<and> (fst (load_body w df' dt dc) = Inl e \<longrightarrow> fst (load w df' dt dc) = False)
   \<and> (fst (extractor_extract w (source_type config) (source_config config)) = Inr df
      \<and> \<not> df_empty df \<and> fst (transform w df (transformation_config config)) = Inr df'
      \<and> fst (load_body w df' (destination_type config) (destination_config config)) = Inl e
      \<longrightarrow> fst (run w config) = False)
   \<and> (fst (extractor_extract w (source_type config) (source_config config)) = Inr df
      \<and> \<not> df_empty df \<and> fst (transform w df (transformation_config config)) = Inr df'
      \<and> fst (fst (validate_loop w df'
                     (case v_checks (validation_config config) of None \<Rightarrow> [] | Some cs \<Rightarrow> cs)
                     \<lparr>passed = True, checks = [], errors = []\<rparr>)) = Some e
      \<longrightarrow> \<not> passed (fst (validate w df' (validation_config config)))
          \<and> (stop_on_validation_error (pipeline_config config) \<noteq> Some False
               \<longrightarrow> fst (run w config) = False))"
proof (intro conjI impI)
  assume "fst (extractor_extract w (source_type config) (source_config config)) = Inl e"
  then show "fst (run w config) = False"
    by (cases "extractor_extract w (source_type config) (source_config config)")
       (simp add: run_def run_body_def)
next
  assume a: "fst (extractor_extract w (source_type config) (source_config config)) = Inr df
      \<and> \<not> df_empty df \<and> fst (transform w df (transformation_config config)) = Inl e"
  then obtain evt where "transform w df (transformation_config config) = (Inl e, evt)"
    by (cases "transform w df (transformation_config config)") simp
  with a extract_ok_events [of w "source_type config" "source_config config" df]
  show "fst (run w config) = False"
    by (simp add: run_def run_body_def)
next
  assume "fst (load_body w df' dt dc) = Inl e"
  then show "fst (load w df' dt dc) = False"
    by (cases "load_body w df' dt dc") (simp add: load_def)
next
  assume a: "fst (extractor_extract w (source_type config) (source_config config)) = Inr df
      \<and> \<not> df_empty df \<and> fst (transform w df (transformation_config config)) = Inr df'
      \<and> fst (load_body w df' (destination_type config) (destination_config config)) = Inl e"
  then obtain evt where tr: "transform w df (transformation_config config) = (Inr df', evt)"
    by (cases "transform w df (transformation_config config)") simp
  obtain report evv where va: "validate w df' (validation_config config) = (report, evv)"
    by (cases "validate w df' (validation_config config)")
  from a obtain evl where
    "load_body w df' (destination_type config) (destination_config config) = (Inl e, evl)"
    by (cases "load_body w df' (destination_type config) (destination_config config)") simp
  then have ld: "load w df' (destination_type config) (destination_config config)
                   = (False, evl @ [Log ERROR (''Loading error: '' @ str_error e)])"
    by (simp add: load_def)
  from a run_body_validated [OF _ _ tr va ld]
  show "fst (run w config) = False"
    by (simp add: run_def Let_def)
next
  assume a: "fst (extractor_extract w (source_type config) (source_config config)) = Inr df
      \<and> \<not> df_empty df \<and> fst (transform w df (transformation_config config)) = Inr df'
      \<and> fst (fst (validate_loop w df'
                     (case v_checks (validation_config config) of None \<Rightarrow> [] | Some cs \<Rightarrow> cs)
                     \<lparr>passed = True, checks = [], errors = []\<rparr>)) = Some e"
  then show np: "\<not> passed (fst (validate w df' (validation_config config)))"
    using validate_raised by blast
  assume "stop_on_validation_error (pipeline_config config) \<noteq> Some False"
  with a np run_stops_on_failed_report show "fst (run w config) = False"
    by blast
qed


lemma sample_extract:
  "extractor_extract sample_world ''csv'' [] = (Inr sample_frame, [])"
  by (simp add: extractor_extract_def known_source_def sample_world_def)

lemma sample_not_empty: "\<not> df_empty sample_frame"
  by (simp add: df_empty_def sample_frame_def)

lemma sample_transform:
  "transform sample_world sample_frame \<lparr>transformations = Some []\<rparr>
     = (Inr sample_frame, [Log INFO ''Starting data transformation'',
                           Log INFO ''Transformation completed: 3 rows''])"
  by (simp add: transform_def sample_frame_def str_nat_small)

lemma ghost_raises:
  "fst (fst (validate_loop sample_world sample_frame [ghost_check]
               \<lparr>passed = True, checks = [], errors = []\<rparr>)) = Some (KeyError ''ghost'')"
  by (simp add: ghost_check_def check_of_def check_outcome_def check_not_null_def getitem_def
        sample_frame_def)

lemma ghost_validate:
  "validate sample_world sample_frame \<lparr>v_checks = Some [ghost_check]\<rparr>
     = (\<lparr>passed = False, checks = [], errors = [Raised (KeyError ''ghost'')]\<rparr>,
        [Log ERROR (''Validation error: '' @ str_error (KeyError ''ghost''))])"
  by (simp add: validate_def ghost_check_def check_of_def check_outcome_def check_not_null_def
        getitem_def sample_frame_def)

lemma sample_load:
  "load sample_world sample_frame ''csv'' (destination_of []) = (True, [])"
  by (simp add: load_def load_body_def sample_world_def)

text \<open>
  The claim as first stated, that every failure of a stage makes \<^verbatim>\<open>run\<close> return
  \<^verbatim>\<open>False\<close>, does not hold for validation: with \<^verbatim>\<open>stop_on_validation_error\<close> false, a
  check that raises \<^verbatim>\<open>KeyError\<close> (a not-null check on a column the data does not have)
  still lets the run load and return \<^verbatim>\<open>True\<close>.
\<close>

theorem run_returns_true_counterexample:
  "fst (fst (validate_loop sample_world sample_frame [ghost_check]
               \<lparr>passed = True, checks = [], errors = []\<rparr>)) = Some (KeyError ''ghost'')
   \<and> validation_config (lenient ghost_config) = \<lparr>v_checks = Some [ghost_check]\<rparr>
   \<and> fst (run sample_world (lenient ghost_config)) = True"
  using ghost_raises
        run_body_validated [of sample_world "lenient ghost_config" sample_frame sample_frame
          "[Log INFO ''Starting data transformation'',
            Log INFO ''Transformation completed: 3 rows'']"
          "\<lparr>passed = False, checks = [], errors = [Raised (KeyError ''ghost'')]\<rparr>"
          "[Log ERROR (''Validation error: '' @ str_error (KeyError ''ghost''))]" True "[]"]
        sample_extract sample_not_empty sample_transform ghost_validate sample_load
  by (simp add: run_def lenient_def ghost_config_def sample_config_def Let_def)

theorem run_catches_exceptions_witness:
  "fst (extractor_extract sample_world ''kafka'' [])
       = Inl (ValueError ''Unsupported source type: kafka'')
   \<and> fst (run sample_world (sample_config\<lparr>source_type := ''kafka''\<rparr>)) = False
   \<and> fst (transform sample_world sample_frame
             \<lparr>transformations = Some [step ''drop_columns'']\<rparr>) = Inl (KeyError ''columns'')
   \<and> fst (run sample_world (sample_config\<lparr>transformation_config :=
             \<lparr>transformations = Some [step ''drop_columns'']\<rparr>\<rparr>)) = False
   \<and> fst (load_body sample_world sample_frame ''elasticsearch'' (destination_of []))
       = Inl (ValueError ''Unsupported destination type: elasticsearch'')
   \<and> fst (load sample_world sample_frame ''elasticsearch'' (destination_of [])) = False
   \<and> fst (run sample_world (sample_config\<lparr>destination_type := ''elasticsearch''\<rparr>)) = False
   \<and> \<not> passed (fst (validate sample_world sample_frame \<lparr>v_checks = Some [ghost_check]\<rparr>))
   \<and> fst (run sample_world ghost_config) = False"
  using run_catches_exceptions
          [of sample_world "sample_config\<lparr>source_type := ''kafka''\<rparr>"
              "ValueError ''Unsupported source type: kafka''"]
        run_catches_exceptions
          [of sample_world "sample_config\<lparr>transformation_config :=
                 \<lparr>transformations = Some [step ''drop_columns'']\<rparr>\<rparr>"
              "KeyError ''columns''" sample_frame]
        run_catches_exceptions
          [of sample_world "sample_config\<lparr>destination_type := ''elasticsearch''\<rparr>"
              "ValueError ''Unsupported destination type: elasticsearch''" sample_frame
              sample_frame "''elasticsearch''" "destination_of []"]
        run_catches_exceptions
          [of sample_world ghost_config "KeyError ''ghost''" sample_frame sample_frame]
        sample_extract sample_not_empty sample_transform ghost_raises
  by (simp add: sample_config_def ghost_config_def extractor_extract_def known_source_def
        transform_def apply_transform_def step_def drop_columns_def load_body_def)

subsection \<open>The validator\<close>

lemma validate_loop_char:
  "fst (validate_loop w df cs r) =
     ((case dropWhile (\<lambda>c. \<not> isl (outcome_of w df c)) cs of
         [] \<Rightarrow> None
       | c # _ \<Rightarrow> Some (projl (outcome_of w df c))),
      r\<lparr>checks := checks r @ map (entry_of w df) (evaluated w df cs),
        passed := passed r \<and> (\<forall>c\<in>set (evaluated w df cs). outcome_of w df c = Inr True),
        errors := errors r @ map ValidationFailed
                    (filter (\<lambda>c. outcome_of w df c = Inr False) (evaluated w df cs))\<rparr>)"
proof (induction cs arbitrary: r)
  case Nil
  show ?case by (simp add: evaluated_def)
next
  case (Cons c cs)
  show ?case
  proof (cases "k_type c")
    case None
    then show ?thesis
      by (simp add: evaluated_def outcome_of_def)
  next
    case (Some t)
    obtain res ev where co: "check_outcome w df t c = (res, ev)"
      by (cases "check_outcome w df t c")
    show ?thesis
    proof (cases res)
      case (Inl e)
      with Some co show ?thesis
        by (simp add: evaluated_def outcome_of_def)
    next
      case (Inr b)
      with Some co have out: "outcome_of w df c = Inr b"
        by (simp add: outcome_of_def)
      have ev': "evaluated w df (c # cs) = c # evaluated w df cs"
        using out by (simp add: evaluated_def)
      have dw: "dropWhile (\<lambda>c. \<not> isl (outcome_of w df c)) (c # cs)
                  = dropWhile (\<lambda>c. \<not> isl (outcome_of w df c)) cs"
        using out by simp
      have en: "entry_of w df c = \<lparr>r_type = t, r_passed = b, r_config = c\<rparr>"
        using Some out by (simp add: entry_of_def)
      show ?thesis
      proof (cases b)
        case True
        with Some co Inr out en show ?thesis
          unfolding ev' dw
          by (simp add: Cons.IH split_beta Let_def)
      next
        case False
        with Some co Inr out en show ?thesis
          unfolding ev' dw
          by (simp add: Cons.IH split_beta Let_def)
      qed
    qed
  qed
qed


lemma evaluated_all:
  "(evaluated w df cs = cs) = (\<forall>c\<in>set cs. \<not> isl (outcome_of w df c))"
  by (simp add: evaluated_def takeWhile_eq_all_conv)

lemma validate_char:
  assumes "v_checks vc = Some cs"
  shows "checks (fst (validate w df vc)) = map (entry_of w df) (evaluated w df cs)"
    and "passed (fst (validate w df vc))
           = (evaluated w df cs = cs \<and> (\<forall>c\<in>set cs. outcome_of w df c = Inr True))"
    and "errors (fst (validate w df vc))
           = map ValidationFailed
               (filter (\<lambda>c. outcome_of w df c = Inr False) (evaluated w df cs))
             @ (case dropWhile (\<lambda>c. \<not> isl (outcome_of w df c)) cs of
                  [] \<Rightarrow> []
                | c # _ \<Rightarrow> [Raised (projl (outcome_of w df c))])"
proof -
  let ?r0 = "\<lparr>passed = True, checks = [], errors = []\<rparr>"
  obtain res ev where vl: "validate_loop w df cs ?r0 = (res, ev)"
    by (cases "validate_loop w df cs ?r0")
  from validate_loop_char [of w df cs ?r0] vl
  have res: "res =
     ((case dropWhile (\<lambda>c. \<not> isl (outcome_of w df c)) cs of
         [] \<Rightarrow> None
       | c # _ \<Rightarrow> Some (projl (outcome_of w df c))),
      \<lparr>passed = (\<forall>c\<in>set (evaluated w df cs). outcome_of w df c = Inr True),
       checks = map (entry_of w df) (evaluated w df cs),
       errors = map ValidationFailed
                    (filter (\<lambda>c. outcome_of w df c = Inr False) (evaluated w df cs))\<rparr>)"
    by simp
  show "checks (fst (validate w df vc)) = map (entry_of w df) (evaluated w df cs)"
    using assms vl res
    by (cases "dropWhile (\<lambda>c. \<not> isl (outcome_of w df c)) cs")
       (simp_all add: validate_def del: dropWhile_eq_Nil_conv)
  show "errors (fst (validate w df vc))
           = map ValidationFailed
               (filter (\<lambda>c. outcome_of w df c = Inr False) (evaluated w df cs))
             @ (case dropWhile (\<lambda>c. \<not> isl (outcome_of w df c)) cs of
                  [] \<Rightarrow> []
                | c # _ \<Rightarrow> [Raised (projl (outcome_of w df c))])"
    using assms vl res
    by (cases "dropWhile (\<lambda>c. \<not> isl (outcome_of w df c)) cs")
       (simp_all add: validate_def del: dropWhile_eq_Nil_conv)
  show "passed (fst (validate w df vc))
           = (evaluated w df cs = cs \<and> (\<forall>c\<in>set cs. outcome_of w df c = Inr True))"
  proof (cases "dropWhile (\<lambda>c. \<not> isl (outcome_of w df c)) cs")
    case Nil
    then have "evaluated w df cs = cs"
      by (simp add: evaluated_def takeWhile_eq_all_conv dropWhile_eq_Nil_conv)
    with assms vl res Nil show ?thesis
      by (simp add: validate_def)
  next
    case (Cons c rest)
    then have "dropWhile (\<lambda>c. \<not> isl (outcome_of w df c)) cs \<noteq> []"
      by simp
    then have "\<not> (\<forall>c\<in>set cs. \<not> isl (outcome_of w df c))"
      by (simp add: dropWhile_eq_Nil_conv)
    then have "evaluated w df cs \<noteq> cs"
      using evaluated_all [of w df cs] by blast
    with assms vl res Cons show ?thesis
      by (simp add: validate_def)
  qed
qed




lemma gap_outcomes:
  "outcome_of sample_world gap_frame ((check_of ''not_null'')\<lparr>k_columns := Some [''age'']\<rparr>)
     = Inr False"
  "outcome_of sample_world gap_frame ((check_of ''unique'')\<lparr>k_columns := Some [''id'']\<rparr>)
     = Inr True"
  "outcome_of sample_world gap_frame (check_of ''mystery'') = Inr True"
  by (simp_all add: outcome_of_def check_of_def check_outcome_def check_not_null_def
        check_unique_def getitem_def gap_frame_def cell_def)


subsection \<open>Unknown kinds\<close>

lemma apply_unknown:
  assumes "t_type u = Some kind" and "\<not> known_transform kind"
  shows "apply_transform w df u
           = (Inr df, [Log WARNING (''Unknown transformation type: '' @ kind)])"
  using assms by (simp add: apply_transform_def known_transform_def)

lemma transform_loop_append:
  "transform_loop w df (ts1 @ ts2) =
     (case transform_loop w df ts1 of
        (Inl e, ev) \<Rightarrow> (Inl e, ev)
      | (Inr df', ev) \<Rightarrow> (case transform_loop w df' ts2 of (r, ev') \<Rightarrow> (r, ev @ ev')))"
proof (induction ts1 arbitrary: df)
  case Nil
  show ?case by (simp split: prod.splits)
next
  case (Cons t ts1)
  show ?case
  proof (cases "apply_transform w df t")
    case (Pair res ev)
    then show ?thesis
      by (cases res) (simp_all add: Cons.IH split: prod.splits sum.splits)
  qed
qed

lemma transform_loop_skip:
  assumes "t_type u = Some kind" and "\<not> known_transform kind"
  shows "fst (transform_loop w df (ts1 @ u # ts2)) = fst (transform_loop w df (ts1 @ ts2))"
proof (cases "transform_loop w df ts1")
  case (Pair res ev)
  show ?thesis
  proof (cases res)
    case (Inl e)
    with Pair show ?thesis
      by (simp add: transform_loop_append)
  next
    case (Inr df')
    with Pair apply_unknown [OF assms, of w df'] show ?thesis
      by (simp add: transform_loop_append split: prod.splits)
  qed
qed

lemma transform_result:
  "fst (transform w df \<lparr>transformations = Some ts\<rparr>) = fst (transform_loop w df ts)"
  by (simp add: transform_def split: prod.splits sum.splits)

lemma unknown_outcome:
  assumes "k_type c = Some ckind" and "\<not> known_check ckind"
  shows "outcome_of w df c = Inr True"
  using assms by (simp add: outcome_of_def check_outcome_def known_check_def)

lemma evaluated_append:
  "evaluated w df (cs1 @ cs2) =
     (if evaluated w df cs1 = cs1 then cs1 @ evaluated w df cs2 else evaluated w df cs1)"
  by (auto simp: evaluated_def takeWhile_append takeWhile_eq_all_conv)

lemma dropWhile_raise_append:
  "dropWhile (\<lambda>c. \<not> isl (outcome_of w df c)) (cs1 @ cs2) =
     (if evaluated w df cs1 = cs1 then dropWhile (\<lambda>c. \<not> isl (outcome_of w df c)) cs2
      else dropWhile (\<lambda>c. \<not> isl (outcome_of w df c)) cs1 @ cs2)"
  by (auto simp: evaluated_def dropWhile_append takeWhile_eq_all_conv)


lemma raise_found:
  assumes "evaluated w df cs \<noteq> cs"
  obtains d rest where "dropWhile (\<lambda>c. \<not> isl (outcome_of w df c)) cs = d # rest"
proof -
  from assms have "\<not> (\<forall>c\<in>set cs. \<not> isl (outcome_of w df c))"
    using evaluated_all [of w df cs] by blast
  then have "dropWhile (\<lambda>c. \<not> isl (outcome_of w df c)) cs \<noteq> []"
    by (simp add: dropWhile_eq_Nil_conv)
  then show ?thesis
    using that by (cases "dropWhile (\<lambda>c. \<not> isl (outcome_of w df c)) cs") simp_all
qed

lemma validate_skip:
  assumes "k_type c = Some ckind" and "\<not> known_check ckind"
  shows "passed (fst (validate w df \<lparr>v_checks = Some (cs1 @ c # cs2)\<rparr>))
           = passed (fst (validate w df \<lparr>v_checks = Some (cs1 @ cs2)\<rparr>))"
    and "errors (fst (validate w df \<lparr>v_checks = Some (cs1 @ c # cs2)\<rparr>))
           = errors (fst (validate w df \<lparr>v_checks = Some (cs1 @ cs2)\<rparr>))"
    and "checks (fst (validate w df \<lparr>v_checks = Some (cs1 @ c # cs2)\<rparr>))
           = (if evaluated w df cs1 = cs1
              then take (length cs1) (checks (fst (validate w df \<lparr>v_checks = Some (cs1 @ cs2)\<rparr>)))
                   @ \<lparr>r_type = ckind, r_passed = True, r_config = c\<rparr>
                   # drop (length cs1) (checks (fst (validate w df \<lparr>v_checks = Some (cs1 @ cs2)\<rparr>)))
              else checks (fst (validate w df \<lparr>v_checks = Some (cs1 @ cs2)\<rparr>)))"
proof -
  have out: "outcome_of w df c = Inr True"
    by (rule unknown_outcome [OF assms])
  have ev: "evaluated w df (c # cs2) = c # evaluated w df cs2"
    using out by (simp add: evaluated_def)
  have dw: "dropWhile (\<lambda>c. \<not> isl (outcome_of w df c)) (c # cs2)
              = dropWhile (\<lambda>c. \<not> isl (outcome_of w df c)) cs2"
    using out by simp
  have en: "entry_of w df c = \<lparr>r_type = ckind, r_passed = True, r_config = c\<rparr>"
    using assms(1) out by (simp add: entry_of_def)
  have v: "v_checks \<lparr>v_checks = Some (cs1 @ c # cs2)\<rparr> = Some (cs1 @ c # cs2)"
    and v0: "v_checks \<lparr>v_checks = Some (cs1 @ cs2)\<rparr> = Some (cs1 @ cs2)"
    by simp_all
  show "passed (fst (validate w df \<lparr>v_checks = Some (cs1 @ c # cs2)\<rparr>))
           = passed (fst (validate w df \<lparr>v_checks = Some (cs1 @ cs2)\<rparr>))"
    unfolding validate_char(2) [OF v] validate_char(2) [OF v0] evaluated_all
    using out by auto
  show "errors (fst (validate w df \<lparr>v_checks = Some (cs1 @ c # cs2)\<rparr>))
           = errors (fst (validate w df \<lparr>v_checks = Some (cs1 @ cs2)\<rparr>))"
  proof (cases "evaluated w df cs1 = cs1")
    case True
    then show ?thesis
      unfolding validate_char(3) [OF v] validate_char(3) [OF v0]
        evaluated_append [of w df cs1 "c # cs2"] evaluated_append [of w df cs1 cs2]
        dropWhile_raise_append [of w df cs1 "c # cs2"] dropWhile_raise_append [of w df cs1 cs2]
        ev dw
      using out by simp
  next
    case False
    then obtain d rest where "dropWhile (\<lambda>c. \<not> isl (outcome_of w df c)) cs1 = d # rest"
      by (rule raise_found)
    with False show ?thesis
      unfolding validate_char(3) [OF v] validate_char(3) [OF v0]
        evaluated_append [of w df cs1 "c # cs2"] evaluated_append [of w df cs1 cs2]
        dropWhile_raise_append [of w df cs1 "c # cs2"] dropWhile_raise_append [of w df cs1 cs2]
      by simp
  qed
  show "checks (fst (validate w df \<lparr>v_checks = Some (cs1 @ c # cs2)\<rparr>))
           = (if evaluated w df cs1 = cs1
              then take (length cs1) (checks (fst (validate w df \<lparr>v_checks = Some (cs1 @ cs2)\<rparr>)))
                   @ \<lparr>r_type = ckind, r_passed = True, r_config = c\<rparr>
                   # drop (length cs1) (checks (fst (validate w df \<lparr>v_checks = Some (cs1 @ cs2)\<rparr>)))
              else checks (fst (validate w df \<lparr>v_checks = Some (cs1 @ cs2)\<rparr>)))"
    unfolding validate_char(1) [OF v] validate_char(1) [OF v0]
      evaluated_append [of w df cs1 "c # cs2"] evaluated_append [of w df cs1 cs2] ev
    by (simp add: en)
qed

text \<open>
  C7, as amended. A transformation step of an unrecognised kind does not fail: it logs
  the warning "Unknown transformation type" and leaves the frame as it is, so the
  result of the transformer is the same as without the step. A validation check of an
  unrecognised kind does not fail either, and the overall flag and the error list of
  the report are the same as without it; but the check is recorded in the report as
  one passed result, at its place, whenever the checks before it do not raise.
\<close>

theorem unknown_kind_skipped:
  "(t_type u = Some kind \<and> \<not> known_transform kind \<longrightarrow>
      apply_transform w df u
        = (Inr df, [Log WARNING (''Unknown transformation type: '' @ kind)])
      \<and> fst (transform w df \<lparr>transformations = Some (before @ u # after)\<rparr>)
          = fst (transform w df \<lparr>transformations = Some (before @ after)\<rparr>))
   \<and> (k_type c = Some ckind \<and> \<not> known_check ckind \<longrightarrow>
      passed (fst (validate w df \<lparr>v_checks = Some (checked @ c # pending)\<rparr>))
        = passed (fst (validate w df \<lparr>v_checks = Some (checked @ pending)\<rparr>))
      \<and> errors (fst (validate w df \<lparr>v_checks = Some (checked @ c # pending)\<rparr>))
        = errors (fst (validate w df \<lparr>v_checks = Some (checked @ pending)\<rparr>))
      \<and> checks (fst (validate w df \<lparr>v_checks = Some (checked @ c # pending)\<rparr>))
        = (if evaluated w df checked = checked
           then take (length checked) (checks (fst (validate w df \<lparr>v_checks = Some (checked @ pending)\<rparr>)))
                @ \<lparr>r_type = ckind, r_passed = True, r_config = c\<rparr>
                # drop (length checked) (checks (fst (validate w df \<lparr>v_checks = Some (checked @ pending)\<rparr>)))
           else checks (fst (validate w df \<lparr>v_checks = Some (checked @ pending)\<rparr>))))"
proof (intro conjI impI)
  assume a: "t_type u = Some kind \<and> \<not> known_transform kind"
  then show "apply_transform w df u
        = (Inr df, [Log WARNING (''Unknown transformation type: '' @ kind)])"
    by (simp add: apply_unknown)
  from a show "fst (transform w df \<lparr>transformations = Some (before @ u # after)\<rparr>)
          = fst (transform w df \<lparr>transformations = Some (before @ after)\<rparr>)"
    unfolding transform_result by (simp add: transform_loop_skip)
next
  assume a: "k_type c = Some ckind \<and> \<not> known_check ckind"
  then have k: "k_type c = Some ckind" and u: "\<not> known_check ckind"
    by simp_all
  show "passed (fst (validate w df \<lparr>v_checks = Some (checked @ c # pending)\<rparr>))
        = passed (fst (validate w df \<lparr>v_checks = Some (checked @ pending)\<rparr>))"
    by (rule validate_skip(1) [OF k u])
  show "errors (fst (validate w df \<lparr>v_checks = Some (checked @ c # pending)\<rparr>))
        = errors (fst (validate w df \<lparr>v_checks = Some (checked @ pending)\<rparr>))"
    by (rule validate_skip(2) [OF k u])
  show "checks (fst (validate w df \<lparr>v_checks = Some (checked @ c # pending)\<rparr>))
        = (if evaluated w df checked = checked
           then take (length checked) (checks (fst (validate w df \<lparr>v_checks = Some (checked @ pending)\<rparr>)))
                @ \<lparr>r_type = ckind, r_passed = True, r_config = c\<rparr>
                # drop (length checked) (checks (fst (validate w df \<lparr>v_checks = Some (checked @ pending)\<rparr>)))
           else checks (fst (validate w df \<lparr>v_checks = Some (checked @ pending)\<rparr>)))"
    by (rule validate_skip(3) [OF k u])
qed


text \<open>
  The claim as first stated, that the report is the same as if the descriptor were
  absent, does not hold: a single check of an unknown kind gives a report with one
  (passed) result, where the empty list gives none.
\<close>

theorem unknown_check_recorded_counterexample:
  "checks (fst (validate sample_world sample_frame \<lparr>v_checks = Some [check_of ''mystery'']\<rparr>))
     = [\<lparr>r_type = ''mystery'', r_passed = True, r_config = check_of ''mystery''\<rparr>]
   \<and> checks (fst (validate sample_world sample_frame \<lparr>v_checks = Some []\<rparr>)) = []
   \<and> snd (validate sample_world sample_frame \<lparr>v_checks = Some [check_of ''mystery'']\<rparr>)
     = [Log INFO ''Data validation completed: 1 checks'']"
  by (simp add: validate_def check_of_def check_outcome_def str_nat_small)

lemma gap_validate_alone:
  "fst (validate sample_world gap_frame
          \<lparr>v_checks = Some [(check_of ''not_null'')\<lparr>k_columns := Some [''age'']\<rparr>]\<rparr>)
     = \<lparr>passed = False,
        checks = [\<lparr>r_type = ''not_null'', r_passed = False,
                   r_config = (check_of ''not_null'')\<lparr>k_columns := Some [''age'']\<rparr>\<rparr>],
        errors = [ValidationFailed ((check_of ''not_null'')\<lparr>k_columns := Some [''age'']\<rparr>)]\<rparr>"
  by (simp add: validate_def check_of_def check_outcome_def check_not_null_def getitem_def
        gap_frame_def cell_def)

theorem unknown_kind_skipped_witness:
  "t_type (step ''mystery'') = Some ''mystery''
   \<and> \<not> known_transform ''mystery''
   \<and> apply_transform sample_world sample_frame (step ''mystery'')
       = (Inr sample_frame, [Log WARNING ''Unknown transformation type: mystery''])
   \<and> fst (transform sample_world sample_frame \<lparr>transformations = Some [step ''mystery'']\<rparr>)
       = Inr sample_frame
   \<and> k_type (check_of ''mystery'') = Some ''mystery''
   \<and> \<not> known_check ''mystery''
   \<and> passed (fst (validate sample_world gap_frame
         \<lparr>v_checks = Some [(check_of ''not_null'')\<lparr>k_columns := Some [''age'']\<rparr>,
                           check_of ''mystery'']\<rparr>)) = False
   \<and> map r_passed (checks (fst (validate sample_world gap_frame
         \<lparr>v_checks = Some [(check_of ''not_null'')\<lparr>k_columns := Some [''age'']\<rparr>,
                           check_of ''mystery'']\<rparr>))) = [False, True]"
  using unknown_kind_skipped
          [where u = "step ''mystery''" and kind = "''mystery''" and w = sample_world
             and df = sample_frame and before = "[]" and after = "[]"
             and c = "check_of ''mystery''" and ckind = "''mystery''"]
        unknown_kind_skipped
          [where u = "step ''mystery''" and kind = "''mystery''" and w = sample_world
             and df = gap_frame and before = "[]" and after = "[]"
             and c = "check_of ''mystery''" and ckind = "''mystery''"
             and checked = "[(check_of ''not_null'')\<lparr>k_columns := Some [''age'']\<rparr>]"
             and pending = "[]"]
        gap_validate_alone gap_outcomes(1)
  by (simp add: step_def check_of_def known_transform_def known_check_def transform_def
        sample_frame_def str_nat_small evaluated_def)

subsection \<open>convert-types\<close>













subsection \<open>The API loader\<close>

lemma post_loop_char:
  assumes "upper method = ''POST''"
  shows "fst (post_loop w url method bs records offs) =
           (case dropWhile (answered w url bs records) offs of
              [] \<Rightarrow> Inr True
            | i # _ \<Rightarrow> (case w_post w url i (api_batch bs records i) of
                          Inl e \<Rightarrow> Inl e
                        | Inr status \<Rightarrow> Inr False))
         \<and> filter is_post (snd (post_loop w url method bs records offs)) =
             map (\<lambda>i. Post url (api_batch bs records i))
               (takeWhile (answered w url bs records) offs
                @ take 1 (dropWhile (answered w url bs records) offs))"
proof (induction offs)
  case Nil
  show ?case by simp
next
  case (Cons i offs)
  show ?case
  proof (cases "w_post w url i (take bs (drop i records))")
    case (Inl e)
    with assms show ?thesis
      by (simp add: answered_def api_batch_def Let_def)
  next
    case (Inr status)
    show ?thesis
    proof (cases "status = 200")
      case False
      with Inr assms show ?thesis
        by (simp add: answered_def api_batch_def Let_def)
    next
      case True
      with Inr assms Cons.IH show ?thesis
        by (simp add: answered_def api_batch_def Let_def split_beta)
    qed
  qed
qed

lemma py_range_positive:
  "0 < bs \<Longrightarrow> py_range n bs = Inr (api_offsets n (nat bs))"
  by (simp add: py_range_def api_offsets_def)

lemma chunks_prefix:
  "concat (map (\<lambda>k. take bs (drop (k * bs) xs)) [0 ..< m]) = take (m * bs) xs"
proof (induction m)
  case 0
  show ?case by simp
next
  case (Suc m)
  have "take (m * bs) xs @ take bs (drop (m * bs) xs) = take (m * bs + bs) xs"
    by (simp add: take_add)
  with Suc show ?case
    by (simp add: add.commute)
qed

lemma ceil_covers:
  assumes "0 < (bs::nat)"
  shows "n \<le> (n + bs - 1) div bs * bs"
proof -
  have "n + bs - 1 = (n + bs - 1) div bs * bs + (n + bs - 1) mod bs"
    by simp
  moreover have "(n + bs - 1) mod bs < bs"
    using assms by simp
  ultimately show ?thesis
    by linarith
qed

lemma batches_cover:
  assumes "0 < bs"
  shows "concat (map (api_batch bs records) (api_offsets (length records) bs)) = records"
proof -
  have "concat (map (api_batch bs records) (api_offsets (length records) bs))
          = take ((length records + bs - 1) div bs * bs) records"
    using chunks_prefix [of bs records "(length records + bs - 1) div bs"]
    by (simp add: api_offsets_def api_batch_def o_def)
  with ceil_covers [OF assms, of "length records"] show ?thesis
    by simp
qed


lemma load_api_char:
  assumes "d_url config = Some url"
    and "upper (case d_method config of None \<Rightarrow> ''POST'' | Some m \<Rightarrow> m) = ''POST''"
    and "(case d_batch_size config of None \<Rightarrow> 100 | Some b \<Rightarrow> b) = batch_size"
    and "0 < batch_size"
  shows "filter is_post (snd (load w df ''api'' config)) =
           map (\<lambda>i. Post url (api_batch (nat batch_size) (to_records df) i))
             (takeWhile (answered w url (nat batch_size) (to_records df))
                (api_offsets (length (to_records df)) (nat batch_size))
              @ take 1 (dropWhile (answered w url (nat batch_size) (to_records df))
                          (api_offsets (length (to_records df)) (nat batch_size))))"
    and "fst (load w df ''api'' config) =
           list_all (answered w url (nat batch_size) (to_records df))
             (api_offsets (length (to_records df)) (nat batch_size))"
proof -
  let ?verb = "case d_method config of None \<Rightarrow> ''POST'' | Some m \<Rightarrow> m"
  let ?records = "to_records df"
  let ?offs = "api_offsets (length ?records) (nat batch_size)"
  let ?ok = "answered w url (nat batch_size) ?records"
  let ?ev0 = "[Log INFO (''Loading '' @ str_nat (length (rows df)) @ '' rows to API: '' @ url)]"
  obtain res ev where pl: "post_loop w url ?verb (nat batch_size) ?records ?offs = (res, ev)"
    by (cases "post_loop w url ?verb (nat batch_size) ?records ?offs")
  from post_loop_char [OF assms(2), of w url "nat batch_size" ?records ?offs] pl
  have res: "res = (case dropWhile ?ok ?offs of
              [] \<Rightarrow> Inr True
            | i # _ \<Rightarrow> (case w_post w url i (api_batch (nat batch_size) ?records i) of
                          Inl e \<Rightarrow> Inl e
                        | Inr status \<Rightarrow> Inr False))"
    and posts: "filter is_post ev =
             map (\<lambda>i. Post url (api_batch (nat batch_size) ?records i))
               (takeWhile ?ok ?offs @ take 1 (dropWhile ?ok ?offs))"
    by simp_all
  have la: "load_api w df config =
              (case res of
                 Inr True \<Rightarrow> (Inr True, ?ev0 @ ev @ [Log INFO ''API loading completed''])
               | _ \<Rightarrow> (res, ?ev0 @ ev))"
    using assms(1,3) py_range_positive [OF assms(4), of "length ?records"] pl
    by (simp add: load_api_def Let_def split: sum.splits bool.splits)
  have lb: "load w df ''api'' config =
              (case load_api w df config of
                 (Inl e, ev) \<Rightarrow> (False, ev @ [Log ERROR (''Loading error: '' @ str_error e)])
               | (Inr ok, ev) \<Rightarrow> (ok, ev))"
    by (simp add: load_def load_body_def)
  show "filter is_post (snd (load w df ''api'' config)) =
           map (\<lambda>i. Post url (api_batch (nat batch_size) ?records i))
             (takeWhile ?ok ?offs @ take 1 (dropWhile ?ok ?offs))"
    unfolding lb la using posts
    by (cases res) (simp_all split: bool.splits)
  show "fst (load w df ''api'' config) = list_all ?ok ?offs"
  proof (cases "dropWhile ?ok ?offs")
    case Nil
    then have "list_all ?ok ?offs"
      by (simp add: dropWhile_eq_Nil_conv list_all_iff)
    with Nil res show ?thesis
      unfolding lb la by (simp del: dropWhile_eq_Nil_conv)
  next
    case (Cons i rest)
    then have "dropWhile ?ok ?offs \<noteq> []" by simp
    then have "\<not> list_all ?ok ?offs"
      by (simp add: dropWhile_eq_Nil_conv list_all_iff)
    with Cons res show ?thesis
      unfolding lb la
      by (cases "w_post w url i (api_batch (nat batch_size) ?records i)") simp_all
  qed
qed

text \<open>
  C8, as amended. For an API destination with a URL, the method \<^verbatim>\<open>POST\<close> (in any letter
  case; it is the default) and a batch size greater than zero: the records are cut into
  consecutive batches of the batch size, the last one holding what remains, and the
  batches together are the records; the requests issued are those batches in order, up
  to and including the first one that is not answered with 200 (a later batch is not
  sent, and no request takes an earlier one back); and \<^verbatim>\<open>load\<close> returns \<^verbatim>\<open>True\<close>
  exactly when every batch is answered with 200.
\<close>

theorem load_api_batches:
  assumes "d_url config = Some url"
    and "upper (case d_method config of None \<Rightarrow> ''POST'' | Some m \<Rightarrow> m) = ''POST''"
    and "(case d_batch_size config of None \<Rightarrow> 100 | Some b \<Rightarrow> b) = batch_size"
    and "0 < batch_size"
  shows "filter is_post (snd (load w df ''api'' config)) =
           map (\<lambda>i. Post url (api_batch (nat batch_size) (to_records df) i))
             (takeWhile (answered w url (nat batch_size) (to_records df))
                (api_offsets (length (to_records df)) (nat batch_size))
              @ take 1 (dropWhile (answered w url (nat batch_size) (to_records df))
                          (api_offsets (length (to_records df)) (nat batch_size))))
     \<and> fst (load w df ''api'' config) =
           list_all (answered w url (nat batch_size) (to_records df))
             (api_offsets (length (to_records df)) (nat batch_size))
     \<and> concat (map (api_batch (nat batch_size) (to_records df))
                 (api_offsets (length (to_records df)) (nat batch_size))) = to_records df
     \<and> (\<forall>i\<in>set (api_offsets (length (to_records df)) (nat batch_size)).
           length (api_batch (nat batch_size) (to_records df) i)
             = min (nat batch_size) (length (to_records df) - i))"
proof (intro conjI)
  show "filter is_post (snd (load w df ''api'' config)) =
           map (\<lambda>i. Post url (api_batch (nat batch_size) (to_records df) i))
             (takeWhile (answered w url (nat batch_size) (to_records df))
                (api_offsets (length (to_records df)) (nat batch_size))
              @ take 1 (dropWhile (answered w url (nat batch_size) (to_records df))
                          (api_offsets (length (to_records df)) (nat batch_size))))"
    by (rule load_api_char(1) [OF assms])
  show "fst (load w df ''api'' config) =
           list_all (answered w url (nat batch_size) (to_records df))
             (api_offsets (length (to_records df)) (nat batch_size))"
    by (rule load_api_char(2) [OF assms])
  show "concat (map (api_batch (nat batch_size) (to_records df))
                 (api_offsets (length (to_records df)) (nat batch_size))) = to_records df"
    using assms(4) by (simp add: batches_cover)
  show "\<forall>i\<in>set (api_offsets (length (to_records df)) (nat batch_size)).
           length (api_batch (nat batch_size) (to_records df) i)
             = min (nat batch_size) (length (to_records df) - i)"
    by (simp add: api_batch_def min.commute)
qed


lemma upper_samples:
  "upper ''PUT'' = ''PUT''" "upper ''post'' = ''POST''"
  by code_simp+

lemma sample_records:
  "to_records sample_frame =
     [[(''id'', VNum 1), (''age'', VStr ''5'')],
      [(''id'', VNum 2), (''age'', VStr ''x'')],
      [(''id'', VNum 3), (''age'', VStr ''7'')]]"
  by (simp add: to_records_def sample_frame_def cell_def)

lemma sample_offsets:
  "api_offsets (length (to_records sample_frame)) (nat 1) = [0, 1, 2]"
  "api_offsets (length (to_records sample_frame)) (nat 100) = [0]"
  by code_simp+

lemma sample_count:
  "str_nat (length (rows sample_frame)) = ''3''" "length (to_records sample_frame) = 3"
  by code_simp+

text \<open>
  The claim as first stated, for every API load, does not hold for another method: with
  \<^verbatim>\<open>PUT\<close> the three records are not sent at all and the load still returns \<^verbatim>\<open>True\<close>.
\<close>

theorem load_api_put_counterexample:
  "length (to_records sample_frame) = 3
   \<and> load sample_world sample_frame ''api''
        ((destination_of ''http://api'')\<lparr>d_method := Some ''PUT''\<rparr>)
      = (True, [Log INFO ''Loading 3 rows to API: http://api'',
                Log INFO ''API loading completed''])"
proof -
  have pr: "py_range (length (to_records sample_frame)) 100 = Inr [0]"
    using py_range_positive [of 100 "length (to_records sample_frame)"] sample_offsets(2)
    by simp
  have pl: "post_loop sample_world ''http://api'' ''PUT'' (nat 100)
              (to_records sample_frame) [0] = (Inr True, [])"
    by (simp add: upper_samples)
  have "load_api sample_world sample_frame
          ((destination_of ''http://api'')\<lparr>d_method := Some ''PUT''\<rparr>)
        = (Inr True, [Log INFO ''Loading 3 rows to API: http://api'',
                      Log INFO ''API loading completed''])"
    using pr pl by (simp add: load_api_def destination_of_def Let_def sample_count)
  then show ?thesis
    by (simp add: load_def load_body_def sample_count)
qed

theorem load_api_batches_witness:
  "d_url ((destination_of ''http://api'')\<lparr>d_method := Some ''post'', d_batch_size := Some 1\<rparr>)
     = Some ''http://api''
   \<and> upper ''post'' = ''POST''
   \<and> filter is_post (snd (load failing_api sample_frame ''api''
        ((destination_of ''http://api'')\<lparr>d_method := Some ''post'', d_batch_size := Some 1\<rparr>)))
      = [Post ''http://api'' [[(''id'', VNum 1), (''age'', VStr ''5'')]],
         Post ''http://api'' [[(''id'', VNum 2), (''age'', VStr ''x'')]]]
   \<and> fst (load failing_api sample_frame ''api''
        ((destination_of ''http://api'')\<lparr>d_method := Some ''post'', d_batch_size := Some 1\<rparr>))
      = False"
  using load_api_batches
          [where config = "(destination_of ''http://api'')\<lparr>d_method := Some ''post'',
                                                          d_batch_size := Some 1\<rparr>"
             and url = "''http://api''" and batch_size = 1 and w = failing_api
             and df = sample_frame]
        sample_offsets(1)
  by (simp add: destination_of_def upper_samples sample_records answered_def api_batch_def
        failing_api_def sample_world_def)

end
